theory Spec2Isabelle
  imports Main "HOL-Library.Word"
begin

section \<open>The remote terminal bridge of the Automata portal (server.py)\<close>

text \<open>
  The portal keeps one module-level dictionary \<^verbatim>\<open>terminals\<close> that maps a Socket.IO
  connection identifier (\<^verbatim>\<open>request.sid\<close>) to the two file descriptors of a pseudo
  terminal and the \<^verbatim>\<open>Popen\<close> handle of the shell attached to it. Four event
  handlers and one background task work on it. The embedding passes the whole
  world (the dictionary, the part of the operating system the handlers touch,
  the events sent to clients, the background tasks) explicitly through every
  function; a raised exception is the first component of the result, and the
  world at the moment of the raise is the second.
\<close>

subsection \<open>Data\<close>

type_synonym sid = string
type_synonym fd = nat
type_synonym pid = nat
type_synonym byte = "8 word"

text \<open>A Python \<^verbatim>\<open>str\<close> is a sequence of code points.\<close>

type_synonym pystr = "nat list"

definition ascii :: "string \<Rightarrow> pystr" where
  "ascii s = map of_char s"

datatype error =
    OSError
  | PermissionError
  | KeyError string
  | StructError
  | AttributeError
  | UnicodeEncodeError

text \<open>
  An event payload is a decoded JSON object. Under a key it holds an integer, a
  string, a boolean, or something else (a float, \<^verbatim>\<open>None\<close>, a list, an object).
\<close>

datatype jvalue = JInt int | JStr pystr | JBool bool | JOther

type_synonym payload = "string \<rightharpoonup> jvalue"

text \<open>An entry of \<^verbatim>\<open>terminals\<close>: \<^verbatim>\<open>{'master_fd': .., 'slave_fd': .., 'process': ..}\<close>.\<close>

record term_entry =
  master_fd :: fd
  slave_fd :: fd
  process :: pid

text \<open>
  A child process. Whether and when it exits is its own affair: a signal sent
  to it is recorded (\<^verbatim>\<open>p_sigterm\<close>) and changes nothing else. \<^verbatim>\<open>p_may_signal\<close>
  says that the server is allowed to signal it, which holds until the child
  changes its credentials.
\<close>

datatype proc_status = Running | Exited

record proc =
  p_argv :: "string list"
  p_stdin :: fd
  p_stdout :: fd
  p_stderr :: fd
  p_setsid :: bool
  p_env :: "string \<rightharpoonup> string"
  p_status :: proc_status
  p_may_signal :: bool
  p_sigterm :: bool

text \<open>\<^verbatim>\<open>struct winsize\<close>: four unsigned shorts.\<close>

record winsize =
  ws_row :: "16 word"
  ws_col :: "16 word"
  ws_xpixel :: "16 word"
  ws_ypixel :: "16 word"

definition zero_winsize :: winsize where
  "zero_winsize = \<lparr>ws_row = 0, ws_col = 0, ws_xpixel = 0, ws_ypixel = 0\<rparr>"

text \<open>
  The background task \<^verbatim>\<open>read_terminal_output\<close>, by the statement it executes
  next: not yet run; about to look its entry up, having found the connection
  in the dictionary; at the test of its \<^verbatim>\<open>while\<close> loop; about to call
  \<^verbatim>\<open>select\<close>; waiting in \<^verbatim>\<open>select\<close>; about to call \<^verbatim>\<open>os.read\<close>; about to emit
  the text it decoded; ended. Inside the loop it carries the descriptor it
  read into its local \<^verbatim>\<open>master_fd\<close> on entry. A task waiting in \<^verbatim>\<open>select\<close> also
  carries the number of calls the server had made to the operating system
  when the wait began.
\<close>

datatype relay_pc =
    Entry
  | AtLookup
  | Polling fd
  | AtSelect fd
  | InSelect fd nat
  | AtRead fd
  | AtEmit fd pystr
  | Finished

record relay =
  relay_sid :: sid
  relay_pc :: relay_pc

text \<open>The calls made to the operating system, in the order they were made.\<close>

datatype syscall =
    SysOpenpty fd fd
  | SysPopen pid
  | SysWrite fd "byte list"
  | SysIoctl fd winsize
  | SysKill pid
  | SysClose fd
  | SysSelect fd
  | SysRead fd "byte list"

record world =
  terminals :: "sid \<rightharpoonup> term_entry"
  controller_serial :: "pystr option"
  open_fds :: "fd set"
  fd_limit :: nat
  procs :: "pid \<rightharpoonup> proc"
  next_pid :: pid
  spawn_ok :: bool
  environ :: "string \<rightharpoonup> string"
  winsizes :: "fd \<rightharpoonup> winsize"
  pty_input :: "fd \<Rightarrow> byte list"
  pty_output :: "fd \<Rightarrow> byte list"
  read_grants :: "nat list"
  select_on_closed :: bool
  emitted :: "(sid \<times> pystr) list"
  relays :: "relay list"
  syscalls :: "syscall list"

text \<open>
  \<^verbatim>\<open>winsizes\<close> has an entry exactly for the open master descriptors; it is the
  window size a \<^verbatim>\<open>TIOCGWINSZ\<close> query of that pseudo terminal reports.
  \<^verbatim>\<open>pty_input\<close> holds what was written to a master, \<^verbatim>\<open>pty_output\<close> what the
  shell has produced and the master has not yet read. \<^verbatim>\<open>emitted\<close> lists the
  \<^verbatim>\<open>terminal_output\<close> events with the room they went to. Two fields stand for
  what the kernel is free to do: \<^verbatim>\<open>read_grants\<close> lists how many bytes it hands
  over on the coming reads (a read may return fewer bytes than are pending),
  and \<^verbatim>\<open>select_on_closed\<close> is what a \<^verbatim>\<open>select\<close> in progress reports for a
  descriptor that was closed while it waited.
\<close>

type_synonym outcome = "error option \<times> world"

subsection \<open>The operating system calls the handlers make\<close>

definition logcall :: "syscall \<Rightarrow> world \<Rightarrow> world" where
  "logcall c w = w\<lparr>syscalls := syscalls w @ [c]\<rparr>"

text \<open>POSIX hands out the lowest descriptor that is not open.\<close>

definition alloc_fd :: "fd set \<Rightarrow> nat \<Rightarrow> fd option" where
  "alloc_fd fds limit = List.find (\<lambda>n. n \<notin> fds) [0..<limit]"

text \<open>\<^verbatim>\<open>pty.openpty()\<close>: a fresh pair, or OSError with nothing left open.\<close>

definition os_openpty :: "world \<Rightarrow> error + ((fd \<times> fd) \<times> world)" where
  "os_openpty w =
     (case alloc_fd (open_fds w) (fd_limit w) of
        None \<Rightarrow> Inl OSError
      | Some m \<Rightarrow>
          (case alloc_fd (insert m (open_fds w)) (fd_limit w) of
             None \<Rightarrow> Inl OSError
           | Some s \<Rightarrow>
               Inr ((m, s),
                 logcall (SysOpenpty m s)
                   (w\<lparr>open_fds := insert s (insert m (open_fds w)),
                      winsizes := (winsizes w)(m \<mapsto> zero_winsize),
                      pty_input := (pty_input w)(m := []),
                      pty_output := (pty_output w)(m := [])\<rparr>))))"

text \<open>
  \<^verbatim>\<open>subprocess.Popen(argv, stdin=fd, stdout=fd, stderr=fd, preexec_fn=os.setsid)\<close>
  with no \<^verbatim>\<open>env\<close> argument: the child inherits the environment of the server.
\<close>

definition os_popen :: "string list \<Rightarrow> fd \<Rightarrow> fd \<Rightarrow> fd \<Rightarrow> world \<Rightarrow> error + (pid \<times> world)" where
  "os_popen argv i out err w =
     (if spawn_ok w \<and> i \<in> open_fds w \<and> out \<in> open_fds w \<and> err \<in> open_fds w then
        Inr (next_pid w,
          logcall (SysPopen (next_pid w))
            (w\<lparr>procs := (procs w)(next_pid w \<mapsto>
                  \<lparr>p_argv = argv, p_stdin = i, p_stdout = out, p_stderr = err,
                   p_setsid = True, p_env = environ w, p_status = Running,
                   p_may_signal = True, p_sigterm = False\<rparr>),
               next_pid := Suc (next_pid w)\<rparr>))
      else Inl OSError)"

text \<open>\<^verbatim>\<open>os.write(master_fd, data)\<close>: EBADF on a descriptor that is not an open master.\<close>

definition os_write :: "fd \<Rightarrow> byte list \<Rightarrow> world \<Rightarrow> outcome" where
  "os_write m bs w =
     (if m \<in> open_fds w \<and> m \<in> dom (winsizes w) then
        (None, logcall (SysWrite m bs) (w\<lparr>pty_input := (pty_input w)(m := pty_input w m @ bs)\<rparr>))
      else (Some OSError, w))"

text \<open>\<^verbatim>\<open>fcntl.ioctl(master_fd, termios.TIOCSWINSZ, winsize)\<close>.\<close>

definition os_ioctl_TIOCSWINSZ :: "fd \<Rightarrow> winsize \<Rightarrow> world \<Rightarrow> outcome" where
  "os_ioctl_TIOCSWINSZ m ws w =
     (if m \<in> open_fds w \<and> m \<in> dom (winsizes w) then
        (None, logcall (SysIoctl m ws) (w\<lparr>winsizes := (winsizes w)(m \<mapsto> ws)\<rparr>))
      else (Some OSError, w))"

text \<open>\<^verbatim>\<open>os.close(fd)\<close>: EBADF on a descriptor that is not open.\<close>

definition os_close :: "fd \<Rightarrow> world \<Rightarrow> error + world" where
  "os_close f w =
     (if f \<in> open_fds w then
        Inr (logcall (SysClose f)
          (w\<lparr>open_fds := open_fds w - {f}, winsizes := (winsizes w)(f := None)\<rparr>))
      else Inl OSError)"

text \<open>
  \<^verbatim>\<open>Popen.terminate()\<close>: polls the child and, unless it has exited, sends it
  SIGTERM with \<^verbatim>\<open>os.kill\<close>, which raises PermissionError when the server may not
  signal the child. It does not wait: the child is running afterwards as it
  was before.
\<close>

definition popen_terminate :: "pid \<Rightarrow> world \<Rightarrow> error + world" where
  "popen_terminate p w =
     (case procs w p of
        None \<Rightarrow> Inr w
      | Some pr \<Rightarrow>
          (if p_status pr = Exited then Inr w
           else if \<not> p_may_signal pr then Inl PermissionError
           else Inr (logcall (SysKill p)
                  (w\<lparr>procs := (procs w)(p \<mapsto> pr\<lparr>p_sigterm := True\<rparr>)\<rparr>))))"

text \<open>
  \<^verbatim>\<open>select.select([master_fd], [], [], 0.1)\<close> raises when called on a descriptor
  that is not open. Called on an open one it waits on the open file behind
  the descriptor, for at most 0.1 seconds; what it returns is decided when it
  returns. If the descriptor has not been closed since the wait began, it is
  reported readable when output is pending on it. If it has been closed
  meanwhile, by another thread, the result is unspecified (select(2)),
  whether or not the number has been given out again.
\<close>

definition closed_since :: "fd \<Rightarrow> nat \<Rightarrow> world \<Rightarrow> bool" where
  "closed_since m k w \<longleftrightarrow> SysClose m \<in> set (drop k (syscalls w))"

definition select_ready :: "fd \<Rightarrow> nat \<Rightarrow> world \<Rightarrow> bool" where
  "select_ready m k w =
     (if m \<in> open_fds w \<and> \<not> closed_since m k w then pty_output w m \<noteq> []
      else select_on_closed w)"

text \<open>
  \<^verbatim>\<open>os.read(master_fd, 1024)\<close> on an open master with output pending: at least
  one and at most 1024 of the pending bytes, as many as the kernel grants.
\<close>

definition os_read :: "fd \<Rightarrow> world \<Rightarrow> byte list \<times> world" where
  "os_read m w =
     (let n = (case read_grants w of [] \<Rightarrow> 1024 | g # _ \<Rightarrow> min 1024 (max 1 g));
          chunk = take n (pty_output w m)
      in (chunk,
          logcall (SysRead m chunk)
            (w\<lparr>pty_output := (pty_output w)(m := drop n (pty_output w m)),
               read_grants := tl (read_grants w)\<rparr>)))"

subsection \<open>Packing and text codecs of the Python library\<close>

text \<open>
  \<^verbatim>\<open>struct.pack\<close> with format \<^verbatim>\<open>H\<close>: an integer from 0 to 65535 (a Python
  \<^verbatim>\<open>bool\<close> is the integer 0 or 1), or struct.error.
\<close>

definition pack_H :: "jvalue \<Rightarrow> 16 word option" where
  "pack_H v =
     (case v of
        JInt i \<Rightarrow> (if 0 \<le> i \<and> i \<le> 65535 then Some (word_of_int i) else None)
      | JBool b \<Rightarrow> Some (if b then 1 else 0)
      | _ \<Rightarrow> None)"

definition struct_pack_HHHH :: "jvalue \<Rightarrow> jvalue \<Rightarrow> jvalue \<Rightarrow> jvalue \<Rightarrow> winsize option" where
  "struct_pack_HHHH a b c d =
     (case pack_H a of None \<Rightarrow> None | Some a' \<Rightarrow>
      (case pack_H b of None \<Rightarrow> None | Some b' \<Rightarrow>
       (case pack_H c of None \<Rightarrow> None | Some c' \<Rightarrow>
        (case pack_H d of None \<Rightarrow> None | Some d' \<Rightarrow>
           Some \<lparr>ws_row = a', ws_col = b', ws_xpixel = c', ws_ypixel = d'\<rparr>))))"

text \<open>\<^verbatim>\<open>str.encode()\<close>: UTF-8, strict; a surrogate code point raises.\<close>

definition encode_cp :: "nat \<Rightarrow> byte list option" where
  "encode_cp c =
     (if c < 0x80 then Some [of_nat c]
      else if c < 0x800 then Some [of_nat (0xC0 + c div 64), of_nat (0x80 + c mod 64)]
      else if 0xD800 \<le> c \<and> c \<le> 0xDFFF then None
      else if c < 0x10000 then
        Some [of_nat (0xE0 + c div 4096), of_nat (0x80 + c div 64 mod 64), of_nat (0x80 + c mod 64)]
      else if c \<le> 0x10FFFF then
        Some [of_nat (0xF0 + c div 262144), of_nat (0x80 + c div 4096 mod 64),
              of_nat (0x80 + c div 64 mod 64), of_nat (0x80 + c mod 64)]
      else None)"

fun utf8_encode :: "pystr \<Rightarrow> byte list option" where
  "utf8_encode [] = Some []"
| "utf8_encode (c # cs) =
     (case encode_cp c of
        None \<Rightarrow> None
      | Some bs \<Rightarrow> (case utf8_encode cs of None \<Rightarrow> None | Some rest \<Rightarrow> Some (bs @ rest)))"

text \<open>
  \<^verbatim>\<open>bytes.decode('utf-8', errors='replace')\<close> as CPython decodes: a byte that
  cannot start a sequence, and every maximal prefix of a sequence that its next
  byte breaks or the end of the input cuts, becomes one U+FFFD; decoding resumes
  at the byte that broke the sequence.
\<close>

definition is_cont :: "byte \<Rightarrow> bool" where
  "is_cont b = (0x80 \<le> b \<and> b < 0xC0)"

definition replacement :: nat where
  "replacement = 0xFFFD"

text \<open>The second byte of a three- or four-byte sequence, given its first byte.\<close>

definition second_ok :: "byte \<Rightarrow> byte \<Rightarrow> bool" where
  "second_ok b c =
     (is_cont c \<and>
      \<not> (b = 0xE0 \<and> c < 0xA0) \<and> \<not> (b = 0xED \<and> 0xA0 \<le> c) \<and>
      \<not> (b = 0xF0 \<and> c < 0x90) \<and> \<not> (b = 0xF4 \<and> 0x90 \<le> c))"

definition low6 :: "byte \<Rightarrow> nat" where
  "low6 c = unat c - 0x80"

fun utf8_decode_replace :: "byte list \<Rightarrow> pystr" where
  "utf8_decode_replace [] = []"
| "utf8_decode_replace (b # bs) =
     (if b < 0x80 then unat b # utf8_decode_replace bs
      else if b < 0xC2 then replacement # utf8_decode_replace bs
      else if b < 0xE0 then
        (case bs of
           [] \<Rightarrow> [replacement]
         | c1 # r1 \<Rightarrow>
             if is_cont c1 then ((unat b - 0xC0) * 64 + low6 c1) # utf8_decode_replace r1
             else replacement # utf8_decode_replace bs)
      else if b < 0xF0 then
        (case bs of
           [] \<Rightarrow> [replacement]
         | c1 # r1 \<Rightarrow>
             if \<not> second_ok b c1 then replacement # utf8_decode_replace bs
             else
               (case r1 of
                  [] \<Rightarrow> [replacement]
                | c2 # r2 \<Rightarrow>
                    if is_cont c2 then
                      ((unat b - 0xE0) * 4096 + low6 c1 * 64 + low6 c2) # utf8_decode_replace r2
                    else replacement # utf8_decode_replace r1))
      else if b < 0xF5 then
        (case bs of
           [] \<Rightarrow> [replacement]
         | c1 # r1 \<Rightarrow>
             if \<not> second_ok b c1 then replacement # utf8_decode_replace bs
             else
               (case r1 of
                  [] \<Rightarrow> [replacement]
                | c2 # r2 \<Rightarrow>
                    if \<not> is_cont c2 then replacement # utf8_decode_replace r1
                    else
                      (case r2 of
                         [] \<Rightarrow> [replacement]
                       | c3 # r3 \<Rightarrow>
                           if is_cont c3 then
                             ((unat b - 0xF0) * 262144 + low6 c1 * 4096 + low6 c2 * 64 + low6 c3)
                               # utf8_decode_replace r3
                           else replacement # utf8_decode_replace r2)))
      else replacement # utf8_decode_replace bs)"

subsection \<open>The event handlers\<close>

text \<open>\<^verbatim>\<open>emit('terminal_output', {'data': text})\<close> to the room of one connection.\<close>

definition emit :: "sid \<Rightarrow> pystr \<Rightarrow> world \<Rightarrow> world" where
  "emit room text w = w\<lparr>emitted := emitted w @ [(room, text)]\<rparr>"

text \<open>\<^verbatim>\<open>socketio.start_background_task(target=read_terminal_output, session_id=..)\<close>.\<close>

definition start_background_task :: "sid \<Rightarrow> world \<Rightarrow> world" where
  "start_background_task s w = w\<lparr>relays := relays w @ [\<lparr>relay_sid = s, relay_pc = Entry\<rparr>]\<rparr>"

text \<open>
  \<^verbatim>\<open>handle_terminal_resize\<close>: returns at once for an unknown connection; otherwise
  reads \<^verbatim>\<open>data['rows']\<close> and \<^verbatim>\<open>data['cols']\<close>, packs them and sets the window size.
\<close>

definition handle_terminal_resize :: "sid \<Rightarrow> payload \<Rightarrow> world \<Rightarrow> outcome" where
  "handle_terminal_resize session_id data w =
     (case terminals w session_id of
        None \<Rightarrow> (None, w)
      | Some term \<Rightarrow>
          (case data ''rows'' of
             None \<Rightarrow> (Some (KeyError ''rows''), w)
           | Some r \<Rightarrow>
               (case data ''cols'' of
                  None \<Rightarrow> (Some (KeyError ''cols''), w)
                | Some c \<Rightarrow>
                    (case struct_pack_HHHH r c (JInt 0) (JInt 0) of
                       None \<Rightarrow> (Some StructError, w)
                     | Some ws \<Rightarrow> os_ioctl_TIOCSWINSZ (master_fd term) ws w))))"

text \<open>The text of the connected notice: an f-string prints \<^verbatim>\<open>None\<close> as ``None''.\<close>

definition connected_notice :: "pystr option \<Rightarrow> pystr" where
  "connected_notice serial =
     ascii ''Connected to '' @ (case serial of None \<Rightarrow> ascii ''None'' | Some s \<Rightarrow> s) @ [13, 10]"

text \<open>
  \<^verbatim>\<open>handle_terminal_connect\<close>: nothing for a connection that has an entry;
  otherwise a pseudo terminal, a shell on its subordinate side, the entry, the
  initial size when the payload has both keys, the background task, the notice.
\<close>

definition handle_terminal_connect :: "sid \<Rightarrow> payload \<Rightarrow> world \<Rightarrow> outcome" where
  "handle_terminal_connect session_id data w =
     (if session_id \<in> dom (terminals w) then (None, w)
      else
        (case os_openpty w of
           Inl e \<Rightarrow> (Some e, w)
         | Inr ((m, s), w1) \<Rightarrow>
             (case os_popen [''/bin/bash''] s s s w1 of
                Inl e \<Rightarrow> (Some e, w1)
              | Inr (p, w2) \<Rightarrow>
                  (let w3 = w2\<lparr>terminals := (terminals w2)(session_id \<mapsto>
                               \<lparr>master_fd = m, slave_fd = s, process = p\<rparr>)\<rparr>;
                       (err, w4) =
                         (if ''cols'' \<in> dom data \<and> ''rows'' \<in> dom data then
                            handle_terminal_resize session_id
                              [''cols'' \<mapsto> the (data ''cols''), ''rows'' \<mapsto> the (data ''rows'')] w3
                          else (None, w3))
                   in (case err of
                         Some e \<Rightarrow> (Some e, w4)
                       | None \<Rightarrow>
                           (None, emit session_id (connected_notice (controller_serial w4))
                                    (start_background_task session_id w4)))))))"

text \<open>
  \<^verbatim>\<open>handle_terminal_input\<close>: nothing for an unknown connection; otherwise
  \<^verbatim>\<open>data['data'].encode()\<close> is written to the master.
\<close>

definition handle_terminal_input :: "sid \<Rightarrow> payload \<Rightarrow> world \<Rightarrow> outcome" where
  "handle_terminal_input session_id data w =
     (case terminals w session_id of
        None \<Rightarrow> (None, w)
      | Some term \<Rightarrow>
          (case data ''data'' of
             None \<Rightarrow> (Some (KeyError ''data''), w)
           | Some (JStr text) \<Rightarrow>
               (case utf8_encode text of
                  None \<Rightarrow> (Some UnicodeEncodeError, w)
                | Some bs \<Rightarrow> os_write (master_fd term) bs w)
           | Some _ \<Rightarrow> (Some AttributeError, w)))"

text \<open>
  \<^verbatim>\<open>handle_disconnect\<close>: for a connection with an entry, terminate the shell, close
  the master, close the subordinate side, delete the entry, in this order; an
  exception skips what follows it.
\<close>

definition handle_disconnect :: "sid \<Rightarrow> world \<Rightarrow> outcome" where
  "handle_disconnect session_id w =
     (case terminals w session_id of
        None \<Rightarrow> (None, w)
      | Some term \<Rightarrow>
          (case popen_terminate (process term) w of
             Inl e \<Rightarrow> (Some e, w)
           | Inr w1 \<Rightarrow>
               (case os_close (master_fd term) w1 of
                  Inl e \<Rightarrow> (Some e, w1)
                | Inr w2 \<Rightarrow>
                    (case os_close (slave_fd term) w2 of
                       Inl e \<Rightarrow> (Some e, w2)
                     | Inr w3 \<Rightarrow>
                         (None, w3\<lparr>terminals := (terminals w3)(session_id := None)\<rparr>)))))"

subsection \<open>The output relay\<close>

text \<open>
  \<^verbatim>\<open>read_terminal_output\<close>, one statement at a time, so that any other event can
  fall between two statements of the task. On entry it returns if the
  connection has no entry and otherwise reads \<^verbatim>\<open>master_fd\<close> once; the KeyError
  of that lookup, raised when the entry has gone since the test, ends the task
  as well. The loop test
  \<^verbatim>\<open>session_id in terminals\<close> is made once per pass. \<^verbatim>\<open>select\<close> raises when it is
  called on a closed descriptor; after its wait it reports the descriptor
  readable or not. \<^verbatim>\<open>os.read\<close> raises on a closed descriptor, blocks while
  nothing is pending, and otherwise returns a chunk, which is decoded and then
  emitted. The bare \<^verbatim>\<open>except\<close> turns every raise into \<^verbatim>\<open>break\<close>, after which the
  function returns.
\<close>

definition relay_step :: "relay \<Rightarrow> world \<Rightarrow> relay \<times> world" where
  "relay_step r w =
     (case relay_pc r of
        Entry \<Rightarrow>
          (if relay_sid r \<in> dom (terminals w) then (r\<lparr>relay_pc := AtLookup\<rparr>, w)
           else (r\<lparr>relay_pc := Finished\<rparr>, w))
      | AtLookup \<Rightarrow>
          (case terminals w (relay_sid r) of
             None \<Rightarrow> (r\<lparr>relay_pc := Finished\<rparr>, w)
           | Some term \<Rightarrow> (r\<lparr>relay_pc := Polling (master_fd term)\<rparr>, w))
      | Polling m \<Rightarrow>
          (if relay_sid r \<in> dom (terminals w) then (r\<lparr>relay_pc := AtSelect m\<rparr>, w)
           else (r\<lparr>relay_pc := Finished\<rparr>, w))
      | AtSelect m \<Rightarrow>
          (if m \<in> open_fds w then
             (r\<lparr>relay_pc := InSelect m (length (syscalls w))\<rparr>, logcall (SysSelect m) w)
           else (r\<lparr>relay_pc := Finished\<rparr>, w))
      | InSelect m k \<Rightarrow>
          (if select_ready m k w then (r\<lparr>relay_pc := AtRead m\<rparr>, w)
           else (r\<lparr>relay_pc := Polling m\<rparr>, w))
      | AtRead m \<Rightarrow>
          (if m \<notin> open_fds w then (r\<lparr>relay_pc := Finished\<rparr>, w)
           else if pty_output w m = [] then (r, w)
           else (let (chunk, w') = os_read m w
                 in (r\<lparr>relay_pc := AtEmit m (utf8_decode_replace chunk)\<rparr>, w')))
      | AtEmit m output \<Rightarrow> (r\<lparr>relay_pc := Polling m\<rparr>, emit (relay_sid r) output w)
      | Finished \<Rightarrow> (r, w))"

text \<open>The task run by itself for at most that many statements.\<close>

fun relay_steps :: "nat \<Rightarrow> relay \<Rightarrow> world \<Rightarrow> relay \<times> world" where
  "relay_steps 0 r w = (r, w)"
| "relay_steps (Suc n) r w = (let (r', w') = relay_step r w in relay_steps n r' w')"


text \<open>
  The task run by itself from where it stands to the next loop test or to its
  return: the rest of the entry code or of one pass of the loop.
\<close>

definition at_loop_head :: "relay_pc \<Rightarrow> bool" where
  "at_loop_head pc = (case pc of Polling _ \<Rightarrow> True | Finished \<Rightarrow> True | _ \<Rightarrow> False)"

fun settle :: "nat \<Rightarrow> relay \<times> world \<Rightarrow> relay \<times> world" where
  "settle 0 rw = rw"
| "settle (Suc n) (r, w) = (if at_loop_head (relay_pc r) then (r, w) else settle n (relay_step r w))"

definition read_terminal_output_step :: "relay \<Rightarrow> world \<Rightarrow> relay \<times> world" where
  "read_terminal_output_step r w = settle 4 (relay_step r w)"

text \<open>
  The loop has no bound of its own: it polls for as long as the entry exists
  and nothing raises. \<^verbatim>\<open>read_terminal_output\<close> with fuel runs the task by itself
  for at most that many passes, with no other event in between, and reports
  where it stands.
\<close>

fun read_terminal_output :: "nat \<Rightarrow> relay \<Rightarrow> world \<Rightarrow> relay \<times> world" where
  "read_terminal_output 0 r w = (r, w)"
| "read_terminal_output (Suc n) r w =
     (if relay_pc r = Finished then (r, w)
      else (let (r', w') = read_terminal_output_step r w in read_terminal_output n r' w'))"

subsection \<open>The server as a whole\<close>

text \<open>
  What can happen to the server: the four Socket.IO events with the connection
  they arrive on, a background task executing its next statement, and what
  the outside does: a shell writes to its terminal, a child exits or changes
  its credentials, the kernel fixes the sizes of the coming reads.
\<close>

datatype event =
    TerminalConnect sid payload
  | TerminalInput sid payload
  | TerminalResize sid payload
  | Disconnect sid
  | RelayRun nat
  | ShellOutput fd "byte list"
  | ProcExit pid
  | ProcSetuid pid
  | KernelGrants "nat list"

text \<open>An exception that leaves a handler is logged by Socket.IO; the world stays as it was left.\<close>

fun step :: "event \<Rightarrow> world \<Rightarrow> world" where
  "step (TerminalConnect s d) w = snd (handle_terminal_connect s d w)"
| "step (TerminalInput s d) w = snd (handle_terminal_input s d w)"
| "step (TerminalResize s d) w = snd (handle_terminal_resize s d w)"
| "step (Disconnect s) w = snd (handle_disconnect s w)"
| "step (RelayRun i) w =
     (if i < length (relays w) then
        (let (r', w') = relay_step (relays w ! i) w
         in w'\<lparr>relays := (relays w')[i := r']\<rparr>)
      else w)"
| "step (ShellOutput m bs) w =
     (if m \<in> dom (winsizes w) then w\<lparr>pty_output := (pty_output w)(m := pty_output w m @ bs)\<rparr>
      else w)"
| "step (ProcExit p) w =
     (case procs w p of
        None \<Rightarrow> w
      | Some pr \<Rightarrow> w\<lparr>procs := (procs w)(p \<mapsto> pr\<lparr>p_status := Exited\<rparr>)\<rparr>)"
| "step (ProcSetuid p) w =
     (case procs w p of
        None \<Rightarrow> w
      | Some pr \<Rightarrow> w\<lparr>procs := (procs w)(p \<mapsto> pr\<lparr>p_may_signal := False\<rparr>)\<rparr>)"
| "step (KernelGrants gs) w = w\<lparr>read_grants := gs\<rparr>"

fun run :: "event list \<Rightarrow> world \<Rightarrow> world" where
  "run [] w = w"
| "run (e # es) w = run es (step e w)"

text \<open>The server right after start: no session, the three standard descriptors open.\<close>

definition initial_world :: "pystr option \<Rightarrow> (string \<rightharpoonup> string) \<Rightarrow> world" where
  "initial_world serial env =
     \<lparr>terminals = Map.empty, controller_serial = serial, open_fds = {0, 1, 2},
      fd_limit = 1024, procs = Map.empty, next_pid = 2, spawn_ok = True, environ = env,
      winsizes = Map.empty, pty_input = (\<lambda>_. []), pty_output = (\<lambda>_. []),
      read_grants = [], select_on_closed = True, emitted = [], relays = [], syscalls = []\<rparr>"

subsection \<open>Well-formed worlds\<close>

text \<open>
  What the handlers keep true of the dictionary: the descriptors of an entry
  are open and differ, its master is a pseudo terminal, its process exists,
  and no descriptor belongs to two entries.
\<close>

definition wf_world :: "world \<Rightarrow> bool" where
  "wf_world w \<longleftrightarrow>
     (\<forall>s t. terminals w s = Some t \<longrightarrow>
        master_fd t \<in> open_fds w \<and> slave_fd t \<in> open_fds w \<and> master_fd t \<noteq> slave_fd t \<and>
        master_fd t \<in> dom (winsizes w) \<and> process t \<in> dom (procs w)) \<and>
     (\<forall>s s' t t'. terminals w s = Some t \<and> terminals w s' = Some t' \<and> s \<noteq> s' \<longrightarrow>
        master_fd t \<noteq> master_fd t' \<and> master_fd t \<noteq> slave_fd t' \<and> slave_fd t \<noteq> slave_fd t')"

text \<open>
  The server can terminate the shell of a connection: the shell has exited, or
  the server may signal it.
\<close>

definition may_terminate :: "world \<Rightarrow> sid \<Rightarrow> bool" where
  "may_terminate w s =
     (case terminals w s of
        None \<Rightarrow> True
      | Some t \<Rightarrow>
          (case procs w (process t) of
             None \<Rightarrow> True
           | Some pr \<Rightarrow> p_status pr = Exited \<or> p_may_signal pr))"


text \<open>The window size changes requested, oldest first.\<close>

fun ioctls_of :: "syscall list \<Rightarrow> (fd \<times> winsize) list" where
  "ioctls_of [] = []"
| "ioctls_of (SysIoctl f ws # cs) = (f, ws) # ioctls_of cs"
| "ioctls_of (_ # cs) = ioctls_of cs"

subsection \<open>Worlds used as examples\<close>

definition fresh_server :: world where
  "fresh_server = initial_world None Map.empty"

definition init_payload :: payload where
  "init_payload = [''cols'' \<mapsto> JInt 80, ''rows'' \<mapsto> JInt 24]"

text \<open>A fresh server after \<^verbatim>\<open>terminal_connect\<close> on connection A.\<close>

definition one_session :: world where
  "one_session = step (TerminalConnect ''A'' init_payload) fresh_server"

text \<open>The task of A has entered its loop and stands at the loop test.\<close>

definition polling_session :: world where
  "polling_session = run [RelayRun 0, RelayRun 0] one_session"

text \<open>The shell of A has printed ``hi'' and one byte that is not UTF-8.\<close>

definition chatty_session :: world where
  "chatty_session = step (ShellOutput 3 [0x68, 0x69, 0xFF]) polling_session"

text \<open>The shell of A has exited by itself, and the task of A has made one more pass.\<close>

definition exited_session :: world where
  "exited_session =
     run [ProcExit 2, RelayRun 0, RelayRun 0, RelayRun 0] polling_session"

text \<open>
  The task of A has found output pending in its \<^verbatim>\<open>select\<close> and is about to read
  when the client of A disconnects.
\<close>

definition reading_session :: world where
  "reading_session = run [RelayRun 0, RelayRun 0, RelayRun 0] chatty_session"

definition closed_under_read :: world where
  "closed_under_read = step (Disconnect ''A'') reading_session"

text \<open>
  The task of A has read the output of the shell and is about to emit the
  decoded text when the client of A disconnects.
\<close>

definition emitting_session :: world where
  "emitting_session = step (RelayRun 0) reading_session"

definition closed_under_emit :: world where
  "closed_under_emit = step (Disconnect ''A'') emitting_session"




text \<open>The server has lost the right to signal the shell of A.\<close>

definition unsignalable_session :: world where
  "unsignalable_session = step (ProcSetuid 2) one_session"


section \<open>The terminal handlers the installer patches into server.js (SetupNexus.py)\<close>

text \<open>
  Step 5 of the installer inserts a block of JavaScript into the portal's
  \<^verbatim>\<open>server.js\<close>. Per socket it keeps one variable \<^verbatim>\<open>ptyProcess\<close>. Modelled here
  are the \<^verbatim>\<open>terminal-init\<close> handler with what it passes to \<^verbatim>\<open>pty.spawn\<close>, and the
  two callbacks it registers on the process.
\<close>

record pty_spawn =
  spawn_file :: string
  spawn_args :: "string list"
  spawn_name :: string
  spawn_cols :: int
  spawn_rows :: int
  spawn_cwd :: "string option"
  spawn_env :: "string \<rightharpoonup> string"

record socket_state =
  ptyProcess :: "pty_spawn option"
  spawned :: "pty_spawn list"
  socket_emitted :: "pystr list"

text \<open>\<^verbatim>\<open>a || b\<close> on an optional string and on an optional number.\<close>

definition or_string :: "string option \<Rightarrow> string \<Rightarrow> string" where
  "or_string a b = (case a of None \<Rightarrow> b | Some x \<Rightarrow> if x = [] then b else x)"

definition or_number :: "int option \<Rightarrow> int \<Rightarrow> int" where
  "or_number a b = (case a of None \<Rightarrow> b | Some x \<Rightarrow> if x = 0 then b else x)"

text \<open>The prompt given as \<^verbatim>\<open>PS1\<close>; \<^verbatim>\<open>CHR 0x5C\<close> is the backslash.\<close>

definition ps1_prompt :: string where
  "ps1_prompt =
     CHR 0x5C # ''['' @ CHR 0x5C # ''033[01;32m'' @ CHR 0x5C # '']'' @ CHR 0x5C # ''u@'' @
     CHR 0x5C # ''h'' @ CHR 0x5C # ''['' @ CHR 0x5C # ''033[00m'' @ CHR 0x5C # '']:'' @
     CHR 0x5C # ''['' @ CHR 0x5C # ''033[01;34m'' @ CHR 0x5C # '']'' @ CHR 0x5C # ''w'' @
     CHR 0x5C # ''['' @ CHR 0x5C # ''033[00m'' @ CHR 0x5C # '']'' @ CHR 0x5C # ''$ ''"

definition terminal_init ::
  "int option \<Rightarrow> int option \<Rightarrow> (string \<rightharpoonup> string) \<Rightarrow> socket_state \<Rightarrow> socket_state" where
  "terminal_init data_cols data_rows process_env st =
     (let p = \<lparr>spawn_file = or_string (process_env ''SHELL'') ''bash'',
               spawn_args = [''--norc'', ''-i''],
               spawn_name = ''xterm-256color'',
               spawn_cols = or_number data_cols 80,
               spawn_rows = or_number data_rows 24,
               spawn_cwd = process_env ''HOME'',
               spawn_env = process_env(''TERM'' \<mapsto> ''xterm-256color'', ''PS1'' \<mapsto> ps1_prompt)\<rparr>
      in st\<lparr>ptyProcess := Some p, spawned := spawned st @ [p]\<rparr>)"

definition onData :: "pystr \<Rightarrow> socket_state \<Rightarrow> socket_state" where
  "onData text st = st\<lparr>socket_emitted := socket_emitted st @ [text]\<rparr>"

definition process_completed :: pystr where
  "process_completed = [13, 10] @ ascii ''[Process completed]'' @ [13, 10]"

definition onExit :: "socket_state \<Rightarrow> socket_state" where
  "onExit st = st\<lparr>socket_emitted := socket_emitted st @ [process_completed]\<rparr>"

section \<open>Properties\<close>

subsection \<open>Descriptors, well-formedness\<close>

lemma alloc_fd_SomeD: "alloc_fd fds l = Some n \<Longrightarrow> n \<notin> fds \<and> n < l"
  by (auto simp: alloc_fd_def find_Some_iff)

lemma alloc_fd_least:
  assumes "n < l" "n \<notin> fds" "\<forall>k<n. k \<in> fds"
  shows "alloc_fd fds l = Some n"
  unfolding alloc_fd_def find_Some_iff
  using assms by (intro exI[of _ n]) auto

lemma os_openpty_InrD:
  assumes "os_openpty w = Inr ((m, s), w1)"
  shows "m \<notin> open_fds w" "s \<notin> open_fds w" "m \<noteq> s"
    "w1 = logcall (SysOpenpty m s)
            (w\<lparr>open_fds := insert s (insert m (open_fds w)),
               winsizes := (winsizes w)(m \<mapsto> zero_winsize),
               pty_input := (pty_input w)(m := []),
               pty_output := (pty_output w)(m := [])\<rparr>)"
  using assms
  by (auto simp: os_openpty_def split: option.splits dest: alloc_fd_SomeD)

lemma os_openpty_InlD: "os_openpty w = Inl e \<Longrightarrow> e = OSError"
  by (auto simp: os_openpty_def split: option.splits)

lemma os_popen_InrD:
  assumes "os_popen argv i out err w = Inr (p, w2)"
  shows "p = next_pid w"
    "w2 = logcall (SysPopen (next_pid w))
            (w\<lparr>procs := (procs w)(next_pid w \<mapsto>
                  \<lparr>p_argv = argv, p_stdin = i, p_stdout = out, p_stderr = err,
                   p_setsid = True, p_env = environ w, p_status = Running,
                   p_may_signal = True, p_sigterm = False\<rparr>),
               next_pid := Suc (next_pid w)\<rparr>)"
  using assms by (auto simp: os_popen_def split: if_splits)

lemma wf_world_initial: "wf_world (initial_world serial env)"
  by (simp add: wf_world_def initial_world_def)

lemma wf_handle_terminal_resize:
  "wf_world w \<Longrightarrow> wf_world (snd (handle_terminal_resize s d w))"
  by (auto simp: handle_terminal_resize_def os_ioctl_TIOCSWINSZ_def logcall_def wf_world_def
      split: option.splits)

lemma wf_handle_terminal_input:
  "wf_world w \<Longrightarrow> wf_world (snd (handle_terminal_input s d w))"
  by (auto simp: handle_terminal_input_def os_write_def logcall_def wf_world_def
      split: option.splits jvalue.splits)

lemma wf_world_fields:
  "terminals w' = terminals w \<Longrightarrow> open_fds w' = open_fds w \<Longrightarrow> winsizes w' = winsizes w \<Longrightarrow>
   procs w' = procs w \<Longrightarrow> wf_world w' = wf_world w"
  by (simp add: wf_world_def)

lemma wf_new_entry:
  assumes wf: "wf_world w" and absent: "s \<notin> dom (terminals w)"
    and pty: "os_openpty w = Inr ((m, sl), w1)"
    and sh: "os_popen argv sl sl sl w1 = Inr (p, w2)"
  shows "wf_world (w2\<lparr>terminals := (terminals w2)(s \<mapsto> \<lparr>master_fd = m, slave_fd = sl, process = p\<rparr>)\<rparr>)"
proof -
  note o = os_openpty_InrD[OF pty]
  note q = os_popen_InrD[OF sh]
  have t2: "terminals w2 = terminals w"
    and f2: "open_fds w2 = insert sl (insert m (open_fds w))"
    and z2: "winsizes w2 = (winsizes w)(m \<mapsto> zero_winsize)"
    and p2: "procs w2 = (procs w)(p \<mapsto> \<lparr>p_argv = argv, p_stdin = sl, p_stdout = sl, p_stderr = sl,
                   p_setsid = True, p_env = environ w, p_status = Running,
                   p_may_signal = True, p_sigterm = False\<rparr>)"
    by (simp_all add: q(2) o(4) q(1) logcall_def)
  from wf have old: "\<And>s' t. terminals w s' = Some t \<Longrightarrow>
      master_fd t \<in> open_fds w \<and> slave_fd t \<in> open_fds w \<and> master_fd t \<noteq> slave_fd t \<and>
      master_fd t \<in> dom (winsizes w) \<and> process t \<in> dom (procs w)"
    by (simp add: wf_world_def)
  from wf have apart: "\<And>s1 s2 t1 t2. terminals w s1 = Some t1 \<Longrightarrow> terminals w s2 = Some t2 \<Longrightarrow>
      s1 \<noteq> s2 \<Longrightarrow> master_fd t1 \<noteq> master_fd t2 \<and> master_fd t1 \<noteq> slave_fd t2 \<and> slave_fd t1 \<noteq> slave_fd t2"
    unfolding wf_world_def by blast
  have fresh: "\<And>s' t. terminals w s' = Some t \<Longrightarrow>
      master_fd t \<noteq> m \<and> master_fd t \<noteq> sl \<and> slave_fd t \<noteq> m \<and> slave_fd t \<noteq> sl"
    using old o(1) o(2) by blast
  show ?thesis
    unfolding wf_world_def
    using old apart fresh o(3) absent
    by (simp add: t2 f2 z2 p2 dom_def) metis
qed

lemma wf_handle_terminal_resize_pair:
  "handle_terminal_resize s d w = (e, w') \<Longrightarrow> wf_world w \<Longrightarrow> wf_world w'"
  using wf_handle_terminal_resize[of w s d] by simp

lemma wf_emit_start:
  "wf_world (emit s x (start_background_task s' w)) = wf_world w"
  by (simp add: wf_world_def emit_def start_background_task_def)

lemma wf_handle_terminal_connect:
  assumes wf: "wf_world w"
  shows "wf_world (snd (handle_terminal_connect s d w))"
proof (cases "s \<in> dom (terminals w)")
  case True
  then show ?thesis using wf by (simp add: handle_terminal_connect_def)
next
  case absent: False
  show ?thesis
  proof (cases "os_openpty w")
    case (Inl e)
    then show ?thesis using wf absent by (simp add: handle_terminal_connect_def)
  next
    case (Inr r)
    then obtain m sl w1 where pty: "os_openpty w = Inr ((m, sl), w1)"
      by (cases r) auto
    have wf1: "wf_world w1"
      using wf os_openpty_InrD(1)[OF pty] unfolding os_openpty_InrD(4)[OF pty] wf_world_def
      by (auto simp: logcall_def)
    show ?thesis
    proof (cases "os_popen [''/bin/bash''] sl sl sl w1")
      case (Inl e)
      then show ?thesis using wf1 absent pty by (simp add: handle_terminal_connect_def)
    next
      case (Inr r2)
      then obtain p w2 where sh: "os_popen [''/bin/bash''] sl sl sl w1 = Inr (p, w2)"
        by (cases r2) auto
      let ?w3 = "w2\<lparr>terminals := (terminals w2)(s \<mapsto> \<lparr>master_fd = m, slave_fd = sl, process = p\<rparr>)\<rparr>"
      have wf3: "wf_world ?w3" by (rule wf_new_entry[OF wf absent pty sh])
      show ?thesis
        using absent pty sh wf3
        by (auto simp: handle_terminal_connect_def Let_def wf_emit_start
            split: prod.splits option.splits dest: wf_handle_terminal_resize_pair)
    qed
  qed
qed

lemma popen_terminate_fields:
  assumes "popen_terminate p w = Inr w1"
  shows "terminals w1 = terminals w" "open_fds w1 = open_fds w" "winsizes w1 = winsizes w"
    "emitted w1 = emitted w" "relays w1 = relays w" "dom (procs w1) = dom (procs w)"
  using assms
  by (auto simp: popen_terminate_def logcall_def split: option.splits if_splits)

lemma popen_terminate_InlD:
  "popen_terminate p w = Inl e \<Longrightarrow>
   e = PermissionError \<and> (\<exists>pr. procs w p = Some pr \<and> p_status pr = Running \<and> \<not> p_may_signal pr)"
  by (cases "procs w p"; cases "p_status (the (procs w p))")
     (auto simp: popen_terminate_def split: if_splits)

lemma popen_terminate_signals:
  assumes "procs w p = Some pr" "p_status pr = Running" "p_may_signal pr"
  shows "popen_terminate p w =
    Inr (logcall (SysKill p) (w\<lparr>procs := (procs w)(p \<mapsto> pr\<lparr>p_sigterm := True\<rparr>)\<rparr>))"
  using assms by (simp add: popen_terminate_def)

lemma popen_terminate_exited:
  assumes "procs w p = Some pr" "p_status pr = Exited"
  shows "popen_terminate p w = Inr w"
  using assms by (simp add: popen_terminate_def)

lemma popen_terminate_status:
  assumes "popen_terminate p w = Inr w1"
  shows "map_option p_status (procs w1 q) = map_option p_status (procs w q)"
  using assms
  by (auto simp: popen_terminate_def logcall_def split: option.splits if_splits)

lemma handle_disconnect_present:
  assumes t: "terminals w s = Some t"
    and k: "popen_terminate (process t) w = Inr w1"
    and m: "master_fd t \<in> open_fds w" and sl: "slave_fd t \<in> open_fds w"
    and ne: "master_fd t \<noteq> slave_fd t"
  obtains w' where "handle_disconnect s w = (None, w')"
    "terminals w' = (terminals w)(s := None)"
    "open_fds w' = open_fds w - {master_fd t, slave_fd t}"
    "winsizes w' = (winsizes w)(master_fd t := None, slave_fd t := None)"
    "procs w' = procs w1"
    "emitted w' = emitted w" "relays w' = relays w"
    "syscalls w' = syscalls w1 @ [SysClose (master_fd t), SysClose (slave_fd t)]"
proof -
  note f = popen_terminate_fields[OF k]
  let ?w2 = "logcall (SysClose (master_fd t))
          (w1\<lparr>open_fds := open_fds w1 - {master_fd t}, winsizes := (winsizes w1)(master_fd t := None)\<rparr>)"
  let ?w3 = "logcall (SysClose (slave_fd t))
          (?w2\<lparr>open_fds := open_fds ?w2 - {slave_fd t}, winsizes := (winsizes ?w2)(slave_fd t := None)\<rparr>)"
  have c1: "os_close (master_fd t) w1 = Inr ?w2"
    using m by (simp add: os_close_def f)
  have c2: "os_close (slave_fd t) ?w2 = Inr ?w3"
    using sl ne by (simp add: os_close_def f logcall_def)
  have r: "handle_disconnect s w = (None, ?w3\<lparr>terminals := (terminals ?w3)(s := None)\<rparr>)"
    unfolding handle_disconnect_def using t by (simp add: k c1 c2)
  show ?thesis
    by (rule that[OF r]) (auto simp: logcall_def f)
qed

lemma handle_disconnect_refused:
  assumes "terminals w s = Some t" "popen_terminate (process t) w = Inl e"
  shows "handle_disconnect s w = (Some e, w)"
  using assms by (simp add: handle_disconnect_def)

lemma wf_handle_disconnect:
  assumes wf: "wf_world w"
  shows "wf_world (snd (handle_disconnect s w))"
proof (cases "terminals w s")
  case None
  then show ?thesis using wf by (simp add: handle_disconnect_def)
next
  case (Some t)
  show ?thesis
  proof (cases "popen_terminate (process t) w")
    case (Inl e)
    then show ?thesis using wf Some by (simp add: handle_disconnect_refused)
  next
    case (Inr w1)
    from wf have old: "\<And>s' t. terminals w s' = Some t \<Longrightarrow>
        master_fd t \<in> open_fds w \<and> slave_fd t \<in> open_fds w \<and> master_fd t \<noteq> slave_fd t \<and>
        master_fd t \<in> dom (winsizes w) \<and> process t \<in> dom (procs w)"
      by (simp add: wf_world_def)
    from wf have apart: "\<And>s1 s2 t1 t2. terminals w s1 = Some t1 \<Longrightarrow> terminals w s2 = Some t2 \<Longrightarrow>
        s1 \<noteq> s2 \<Longrightarrow> master_fd t1 \<noteq> master_fd t2 \<and> master_fd t1 \<noteq> slave_fd t2 \<and> slave_fd t1 \<noteq> slave_fd t2"
      unfolding wf_world_def by blast
    from old[OF Some] obtain w' where r: "handle_disconnect s w = (None, w')"
      and f: "terminals w' = (terminals w)(s := None)"
      "open_fds w' = open_fds w - {master_fd t, slave_fd t}"
      "winsizes w' = (winsizes w)(master_fd t := None, slave_fd t := None)"
      "procs w' = procs w1"
      using handle_disconnect_present[OF Some Inr] by metis
    have others: "\<And>s' t'. terminals w s' = Some t' \<Longrightarrow> s' \<noteq> s \<Longrightarrow>
        master_fd t' \<noteq> master_fd t \<and> master_fd t' \<noteq> slave_fd t \<and> slave_fd t' \<noteq> master_fd t \<and> slave_fd t' \<noteq> slave_fd t"
      using apart[OF _ Some] apart[OF Some] by metis
    have one: "master_fd t' \<in> open_fds w' \<and> slave_fd t' \<in> open_fds w' \<and> master_fd t' \<noteq> slave_fd t' \<and>
            master_fd t' \<in> dom (winsizes w') \<and> process t' \<in> dom (procs w')"
      if "terminals w' s' = Some t'" for s' t'
    proof -
      from that have a: "terminals w s' = Some t'" "s' \<noteq> s"
        by (auto simp: f split: if_splits)
      have "process t' \<in> dom (procs w')"
        using old[OF a(1)] by (simp add: f popen_terminate_fields(6)[OF Inr])
      with old[OF a(1)] others[OF a] show ?thesis
        by (auto simp: f)
    qed
    have two: "master_fd t1 \<noteq> master_fd t2 \<and> master_fd t1 \<noteq> slave_fd t2 \<and> slave_fd t1 \<noteq> slave_fd t2"
      if "terminals w' s1 = Some t1" "terminals w' s2 = Some t2" "s1 \<noteq> s2" for s1 s2 t1 t2
    proof -
      from that have "terminals w s1 = Some t1" "terminals w s2 = Some t2"
        by (auto simp: f split: if_splits)
      then show ?thesis using that(3) by (rule apart)
    qed
    have "wf_world w'"
      unfolding wf_world_def using one two by blast
    then show ?thesis by (simp add: r)
  qed
qed

lemma os_read_fields:
  assumes "os_read m w = (chunk, w')"
  shows "terminals w' = terminals w" "open_fds w' = open_fds w" "winsizes w' = winsizes w"
    "procs w' = procs w" "relays w' = relays w" "emitted w' = emitted w"
    "syscalls w' = syscalls w @ [SysRead m chunk]"
  using assms by (auto simp: os_read_def Let_def logcall_def)

lemma relay_step_fields:
  assumes "relay_step r w = (r', w')"
  shows "terminals w' = terminals w" "open_fds w' = open_fds w" "winsizes w' = winsizes w"
    "procs w' = procs w" "relays w' = relays w" "relay_sid r' = relay_sid r"
proof -
  have "terminals w' = terminals w \<and> open_fds w' = open_fds w \<and> winsizes w' = winsizes w \<and>
    procs w' = procs w \<and> relays w' = relays w \<and> relay_sid r' = relay_sid r"
  proof (cases "relay_pc r")
    case (AtRead m)
    show ?thesis
    proof (cases "m \<in> open_fds w \<and> pty_output w m \<noteq> []")
      case True
      obtain chunk w1 where rd: "os_read m w = (chunk, w1)" by (cases "os_read m w")
      with True AtRead assms have "w' = w1" "r' = r\<lparr>relay_pc := AtEmit m (utf8_decode_replace chunk)\<rparr>"
        by (auto simp: relay_step_def)
      then show ?thesis using os_read_fields[OF rd] by simp
    next
      case False
      with AtRead assms show ?thesis by (auto simp: relay_step_def split: if_splits)
    qed
  qed (use assms in \<open>auto simp: relay_step_def logcall_def emit_def split: option.splits if_splits\<close>)
  then show "terminals w' = terminals w" "open_fds w' = open_fds w" "winsizes w' = winsizes w"
    "procs w' = procs w" "relays w' = relays w" "relay_sid r' = relay_sid r"
    by simp_all
qed

lemma wf_step:
  assumes wf: "wf_world w"
  shows "wf_world (step e w)"
proof (cases e)
  case (TerminalConnect s d)
  then show ?thesis using wf by (simp add: wf_handle_terminal_connect)
next
  case (TerminalInput s d)
  then show ?thesis using wf by (simp add: wf_handle_terminal_input)
next
  case (TerminalResize s d)
  then show ?thesis using wf by (simp add: wf_handle_terminal_resize)
next
  case (Disconnect s)
  then show ?thesis using wf by (simp add: wf_handle_disconnect)
next
  case (RelayRun i)
  show ?thesis
  proof (cases "i < length (relays w)")
    case True
    obtain r' w' where st: "relay_step (relays w ! i) w = (r', w')"
      by (cases "relay_step (relays w ! i) w")
    have "wf_world (w'\<lparr>relays := (relays w')[i := r']\<rparr>) = wf_world w"
      by (rule wf_world_fields) (simp_all add: relay_step_fields[OF st])
    then show ?thesis using wf True st RelayRun by simp
  next
    case False
    then show ?thesis using wf RelayRun by simp
  qed
next
  case (ShellOutput m bs)
  then show ?thesis using wf by (simp add: wf_world_def)
next
  case (ProcExit p)
  then show ?thesis using wf by (auto simp: wf_world_def split: option.splits)
next
  case (ProcSetuid p)
  then show ?thesis using wf by (auto simp: wf_world_def split: option.splits)
next
  case (KernelGrants gs)
  then show ?thesis using wf by (simp add: wf_world_def)
qed

lemma wf_run: "wf_world w \<Longrightarrow> wf_world (run es w)"
  by (induction es arbitrary: w) (simp_all add: wf_step)

subsection \<open>The example worlds, evaluated\<close>

lemma alloc_fresh_3: "alloc_fd {0, Suc 0, 2} 1024 = Some 3"
  by (rule alloc_fd_least) (auto simp: less_Suc_eq numeral_3_eq_3)

lemma alloc_fresh_4: "alloc_fd {3, 0, Suc 0, 2} 1024 = Some 4"
  by (rule alloc_fd_least) (auto simp: less_Suc_eq eval_nat_numeral)

lemma connect_fresh:
  "handle_terminal_connect ''A'' init_payload (initial_world serial env) =
    (None,
     \<lparr>terminals = [''A'' \<mapsto> \<lparr>master_fd = 3, slave_fd = 4, process = 2\<rparr>],
      controller_serial = serial, open_fds = {4, 3, 0, 1, 2}, fd_limit = 1024,
      procs = [2 \<mapsto> \<lparr>p_argv = [''/bin/bash''], p_stdin = 4, p_stdout = 4, p_stderr = 4,
                   p_setsid = True, p_env = env, p_status = Running,
                   p_may_signal = True, p_sigterm = False\<rparr>],
      next_pid = 3, spawn_ok = True, environ = env,
      winsizes = [3 \<mapsto> \<lparr>ws_row = 24, ws_col = 80, ws_xpixel = 0, ws_ypixel = 0\<rparr>],
      pty_input = (\<lambda>_. []), pty_output = (\<lambda>_. []),
      read_grants = [], select_on_closed = True,
      emitted = [(''A'', connected_notice serial)],
      relays = [\<lparr>relay_sid = ''A'', relay_pc = Entry\<rparr>],
      syscalls = [SysOpenpty 3 4, SysPopen 2,
                  SysIoctl 3 \<lparr>ws_row = 24, ws_col = 80, ws_xpixel = 0, ws_ypixel = 0\<rparr>]\<rparr>)"
  by (simp add: handle_terminal_connect_def initial_world_def os_openpty_def alloc_fresh_3 alloc_fresh_4
      os_popen_def logcall_def init_payload_def handle_terminal_resize_def struct_pack_HHHH_def
      pack_H_def os_ioctl_TIOCSWINSZ_def emit_def start_background_task_def zero_winsize_def
      fun_upd_idem)

lemma one_session_eq:
  "one_session =
     \<lparr>terminals = [''A'' \<mapsto> \<lparr>master_fd = 3, slave_fd = 4, process = 2\<rparr>],
      controller_serial = None, open_fds = {4, 3, 0, 1, 2}, fd_limit = 1024,
      procs = [2 \<mapsto> \<lparr>p_argv = [''/bin/bash''], p_stdin = 4, p_stdout = 4, p_stderr = 4,
                   p_setsid = True, p_env = Map.empty, p_status = Running,
                   p_may_signal = True, p_sigterm = False\<rparr>],
      next_pid = 3, spawn_ok = True, environ = Map.empty,
      winsizes = [3 \<mapsto> \<lparr>ws_row = 24, ws_col = 80, ws_xpixel = 0, ws_ypixel = 0\<rparr>],
      pty_input = (\<lambda>_. []), pty_output = (\<lambda>_. []),
      read_grants = [], select_on_closed = True,
      emitted = [(''A'', connected_notice None)],
      relays = [\<lparr>relay_sid = ''A'', relay_pc = Entry\<rparr>],
      syscalls = [SysOpenpty 3 4, SysPopen 2,
                  SysIoctl 3 \<lparr>ws_row = 24, ws_col = 80, ws_xpixel = 0, ws_ypixel = 0\<rparr>]\<rparr>"
  by (simp add: one_session_def fresh_server_def connect_fresh)

lemma polling_session_eq:
  "polling_session = one_session\<lparr>relays := [\<lparr>relay_sid = ''A'', relay_pc = Polling 3\<rparr>]\<rparr>"
  by (simp add: polling_session_def one_session_eq relay_step_def)

lemma wf_one_session: "wf_world one_session"
  unfolding one_session_def fresh_server_def by (intro wf_step wf_world_initial)

lemma wf_polling_session: "wf_world polling_session"
  unfolding polling_session_def by (intro wf_run wf_one_session)

subsection \<open>Duplicate init events\<close>

text \<open>
  Claim C1. The dictionary has at most one entry per connection identifier, and
  \<^verbatim>\<open>handle_terminal_connect\<close> for an identifier that has an entry does nothing:
  it raises nothing and returns the world as it was, so no second pseudo
  terminal is opened, no second shell is started, and the existing entry and
  the dictionary are unchanged. Any number of such init events in a row leaves
  the world as it was.
\<close>

theorem duplicate_init_is_noop:
  assumes "session_id \<in> dom (terminals w)"
  shows "handle_terminal_connect session_id data w = (None, w) \<and>
         run (replicate n (TerminalConnect session_id data)) w = w"
proof -
  have one: "handle_terminal_connect session_id data w = (None, w)"
    using assms by (simp add: handle_terminal_connect_def)
  have "run (replicate n (TerminalConnect session_id data)) w = w"
    by (induction n) (simp_all add: one)
  with one show ?thesis by simp
qed

theorem duplicate_init_is_noop_witness:
  "''A'' \<in> dom (terminals one_session) \<and>
   handle_terminal_connect ''A'' init_payload one_session = (None, one_session) \<and>
   run (replicate 3 (TerminalConnect ''A'' init_payload)) one_session = one_session"
proof -
  have h: "''A'' \<in> dom (terminals one_session)"
    by (simp add: one_session_eq)
  show ?thesis
    using h duplicate_init_is_noop [OF h, of init_payload 3] by simp
qed

subsection \<open>Events for a connection without a session\<close>

lemma handle_disconnect_removes:
  "handle_disconnect s w = (None, w') \<Longrightarrow> terminals w' s = None"
  by (auto simp: handle_disconnect_def split: option.splits sum.splits)

lemma handle_disconnect_wf_ok:
  assumes "wf_world w" "may_terminate w s"
  shows "fst (handle_disconnect s w) = None"
proof (cases "terminals w s")
  case None
  then show ?thesis by (simp add: handle_disconnect_def)
next
  case (Some t)
  with assms have own: "master_fd t \<in> open_fds w" "slave_fd t \<in> open_fds w"
    "master_fd t \<noteq> slave_fd t"
    by (auto simp: wf_world_def)
  show ?thesis
  proof (cases "popen_terminate (process t) w")
    case (Inl e)
    from popen_terminate_InlD[OF this] assms(2) Some show ?thesis
      by (auto simp: may_terminate_def)
  next
    case (Inr w1)
    from handle_disconnect_present[OF Some Inr own] show ?thesis
      by (metis fst_conv)
  qed
qed

lemma handle_disconnect_twice:
  "terminals (snd (handle_disconnect s (snd (handle_disconnect s w)))) =
   terminals (snd (handle_disconnect s w))"
  by (auto simp: handle_disconnect_def popen_terminate_def os_close_def logcall_def
      split: option.splits sum.splits if_splits)

text \<open>
  Claim C5. For a connection identifier with no entry in the dictionary,
  \<^verbatim>\<open>handle_terminal_input\<close>, \<^verbatim>\<open>handle_terminal_resize\<close> and \<^verbatim>\<open>handle_disconnect\<close>
  raise nothing and return the world unchanged, whatever the payload. In
  every world a second disconnect for the same identifier leaves the
  dictionary as the first one left it. A disconnect that returns normally has
  removed the entry, so that the second one changes nothing at all; and a
  disconnect returns normally in every well-formed world in which the server
  can terminate the shell of the connection.
\<close>

theorem unknown_session_is_noop:
  "(terminals w session_id = None \<longrightarrow>
      handle_terminal_input session_id data w = (None, w) \<and>
      handle_terminal_resize session_id data w = (None, w) \<and>
      handle_disconnect session_id w = (None, w)) \<and>
   terminals (snd (handle_disconnect session_id (snd (handle_disconnect session_id w)))) =
     terminals (snd (handle_disconnect session_id w)) \<and>
   (fst (handle_disconnect session_id w) = None \<longrightarrow>
      terminals (snd (handle_disconnect session_id w)) session_id = None \<and>
      handle_disconnect session_id (snd (handle_disconnect session_id w)) =
        (None, snd (handle_disconnect session_id w))) \<and>
   (wf_world w \<and> may_terminate w session_id \<longrightarrow>
      fst (handle_disconnect session_id w) = None)"
proof (intro conjI impI)
  assume ok: "fst (handle_disconnect session_id w) = None"
  obtain w' where r: "handle_disconnect session_id w = (None, w')"
    using ok by (cases "handle_disconnect session_id w") auto
  have gone: "terminals w' session_id = None"
    by (rule handle_disconnect_removes[OF r])
  show "terminals (snd (handle_disconnect session_id w)) session_id = None"
    by (simp add: r gone)
  show "handle_disconnect session_id (snd (handle_disconnect session_id w)) =
        (None, snd (handle_disconnect session_id w))"
    unfolding r snd_conv using gone by (simp add: handle_disconnect_def)
next
  assume "wf_world w \<and> may_terminate w session_id"
  then show "fst (handle_disconnect session_id w) = None"
    by (simp add: handle_disconnect_wf_ok)
next
  show "terminals (snd (handle_disconnect session_id (snd (handle_disconnect session_id w)))) =
     terminals (snd (handle_disconnect session_id w))"
    by (rule handle_disconnect_twice)
qed (simp_all add: handle_terminal_input_def handle_terminal_resize_def handle_disconnect_def)

theorem unknown_session_is_noop_witness:
  "terminals one_session ''B'' = None \<and>
   handle_terminal_input ''B'' [''data'' \<mapsto> JStr (ascii ''ls'')] one_session = (None, one_session) \<and>
   handle_terminal_resize ''B'' [''data'' \<mapsto> JStr (ascii ''ls'')] one_session = (None, one_session) \<and>
   handle_disconnect ''B'' one_session = (None, one_session) \<and>
   wf_world one_session \<and> may_terminate one_session ''A'' \<and>
   terminals one_session ''A'' \<noteq> None \<and>
   terminals (snd (handle_disconnect ''A'' (snd (handle_disconnect ''A'' one_session)))) =
     terminals (snd (handle_disconnect ''A'' one_session)) \<and>
   fst (handle_disconnect ''A'' one_session) = None \<and>
   terminals (snd (handle_disconnect ''A'' one_session)) ''A'' = None \<and>
   handle_disconnect ''A'' (snd (handle_disconnect ''A'' one_session)) =
     (None, snd (handle_disconnect ''A'' one_session))"
proof -
  have h: "terminals one_session ''B'' = None" "terminals one_session ''A'' \<noteq> None"
    "may_terminate one_session ''A''"
    by (simp_all add: one_session_eq may_terminate_def)
  show ?thesis
    using h wf_one_session
      unknown_session_is_noop [of one_session "''B''" "[''data'' \<mapsto> JStr (ascii ''ls'')]"]
      unknown_session_is_noop [of one_session "''A''" "[''data'' \<mapsto> JStr (ascii ''ls'')]"]
    by simp
qed

subsection \<open>Creating a session\<close>

lemma ioctls_of_append: "ioctls_of (xs @ ys) = ioctls_of xs @ ioctls_of ys"
  by (induction xs rule: ioctls_of.induct) simp_all

lemma connect_created:
  assumes absent: "session_id \<notin> dom (terminals w)"
    and pty: "os_openpty w = Inr ((m, s), w1)"
    and sh: "os_popen [''/bin/bash''] s s s w1 = Inr (p, w2)"
  shows "handle_terminal_connect session_id data w =
    (let w3 = w2\<lparr>terminals := (terminals w2)(session_id \<mapsto>
                  \<lparr>master_fd = m, slave_fd = s, process = p\<rparr>)\<rparr>
     in if ''cols'' \<in> dom data \<and> ''rows'' \<in> dom data then
          (case struct_pack_HHHH (the (data ''rows'')) (the (data ''cols'')) (JInt 0) (JInt 0) of
             None \<Rightarrow> (Some StructError, w3)
           | Some ws \<Rightarrow>
               (None, emit session_id (connected_notice (controller_serial w))
                  (start_background_task session_id
                     (logcall (SysIoctl m ws) (w3\<lparr>winsizes := (winsizes w3)(m \<mapsto> ws)\<rparr>)))))
        else (None, emit session_id (connected_notice (controller_serial w))
                      (start_background_task session_id w3)))"
proof -
  note o = os_openpty_InrD[OF pty] and q = os_popen_InrD[OF sh]
  have m2: "m \<in> open_fds w2" "m \<in> dom (winsizes w2)" "controller_serial w2 = controller_serial w"
    by (simp_all add: q(2) o(4) logcall_def)
  show ?thesis
    using absent m2
    by (auto simp: handle_terminal_connect_def pty sh Let_def handle_terminal_resize_def
        os_ioctl_TIOCSWINSZ_def logcall_def emit_def start_background_task_def
        split: option.splits)
qed

lemma created_fields:
  assumes pty: "os_openpty w = Inr ((m, s), w1)"
    and sh: "os_popen argv s s s w1 = Inr (p, w2)"
  shows "terminals w2 = terminals w" "emitted w2 = emitted w" "relays w2 = relays w"
    "syscalls w2 = syscalls w @ [SysOpenpty m s, SysPopen p]"
    "winsizes w2 = (winsizes w)(m \<mapsto> zero_winsize)"
    "procs w2 = (procs w)(p \<mapsto> \<lparr>p_argv = argv, p_stdin = s, p_stdout = s, p_stderr = s,
                   p_setsid = True, p_env = environ w, p_status = Running,
                   p_may_signal = True, p_sigterm = False\<rparr>)"
    "open_fds w2 = insert s (insert m (open_fds w))"
  by (simp_all add: os_popen_InrD[OF sh] os_openpty_InrD(4)[OF pty] logcall_def)

text \<open>
  Claim C8. When session creation fails because \<^verbatim>\<open>pty.openpty()\<close> raises or
  because \<^verbatim>\<open>subprocess.Popen\<close> raises, \<^verbatim>\<open>handle_terminal_connect\<close> itself raises
  that error to its caller at once; the dictionary has no new entry, no
  background task has been started and nothing has been emitted.
\<close>

theorem session_start_failure:
  assumes absent: "session_id \<notin> dom (terminals w)"
    and failure: "os_openpty w = Inl e \<or>
       (\<exists>m s w1. os_openpty w = Inr ((m, s), w1) \<and> os_popen [''/bin/bash''] s s s w1 = Inl e)"
  shows "\<exists>w'. handle_terminal_connect session_id data w = (Some e, w') \<and>
           terminals w' = terminals w \<and> relays w' = relays w \<and> emitted w' = emitted w \<and>
           procs w' = procs w"
  using failure
proof
  assume "os_openpty w = Inl e"
  then show ?thesis using absent by (simp add: handle_terminal_connect_def)
next
  assume "\<exists>m s w1. os_openpty w = Inr ((m, s), w1) \<and> os_popen [''/bin/bash''] s s s w1 = Inl e"
  then obtain m s w1 where pty: "os_openpty w = Inr ((m, s), w1)"
    and sh: "os_popen [''/bin/bash''] s s s w1 = Inl e" by blast
  have "handle_terminal_connect session_id data w = (Some e, w1)"
    using absent by (simp add: handle_terminal_connect_def pty sh)
  then show ?thesis
    by (simp add: os_openpty_InrD(4)[OF pty] logcall_def)
qed

lemma alloc_fd_None: "\<forall>n<l. n \<in> fds \<Longrightarrow> alloc_fd fds l = None"
  by (simp add: alloc_fd_def find_None_iff)

theorem session_start_failure_witness:
  "''A'' \<notin> dom (terminals (fresh_server\<lparr>fd_limit := 3\<rparr>)) \<and>
   os_openpty (fresh_server\<lparr>fd_limit := 3\<rparr>) = Inl OSError \<and>
   (\<exists>w'. handle_terminal_connect ''A'' init_payload (fresh_server\<lparr>fd_limit := 3\<rparr>) = (Some OSError, w') \<and>
      terminals w' = Map.empty \<and> relays w' = [] \<and> emitted w' = []) \<and>
   ''A'' \<notin> dom (terminals (fresh_server\<lparr>spawn_ok := False\<rparr>)) \<and>
   (\<exists>m s w1. os_openpty (fresh_server\<lparr>spawn_ok := False\<rparr>) = Inr ((m, s), w1) \<and>
      os_popen [''/bin/bash''] s s s w1 = Inl OSError) \<and>
   (\<exists>w'. handle_terminal_connect ''A'' init_payload (fresh_server\<lparr>spawn_ok := False\<rparr>) = (Some OSError, w') \<and>
      terminals w' = Map.empty \<and> relays w' = [] \<and> emitted w' = [])"
proof -
  have a: "''A'' \<notin> dom (terminals (fresh_server\<lparr>fd_limit := 3\<rparr>))"
    by (simp add: fresh_server_def initial_world_def)
  have "alloc_fd {0, Suc 0, 2} 3 = None"
    by (rule alloc_fd_None) (auto simp: less_Suc_eq numeral_3_eq_3)
  then have f: "os_openpty (fresh_server\<lparr>fd_limit := 3\<rparr>) = Inl OSError"
    by (simp add: os_openpty_def fresh_server_def initial_world_def)
  have t: "terminals (fresh_server\<lparr>fd_limit := 3\<rparr>) = Map.empty"
    "relays (fresh_server\<lparr>fd_limit := 3\<rparr>) = []" "emitted (fresh_server\<lparr>fd_limit := 3\<rparr>) = []"
    by (simp_all add: fresh_server_def initial_world_def)
  have b: "''A'' \<notin> dom (terminals (fresh_server\<lparr>spawn_ok := False\<rparr>))"
    by (simp add: fresh_server_def initial_world_def)
  have g: "\<exists>m s w1. os_openpty (fresh_server\<lparr>spawn_ok := False\<rparr>) = Inr ((m, s), w1) \<and>
      os_popen [''/bin/bash''] s s s w1 = Inl OSError"
    by (simp add: os_openpty_def fresh_server_def initial_world_def alloc_fresh_3 alloc_fresh_4
        os_popen_def logcall_def)
  have u: "terminals (fresh_server\<lparr>spawn_ok := False\<rparr>) = Map.empty"
    "relays (fresh_server\<lparr>spawn_ok := False\<rparr>) = []" "emitted (fresh_server\<lparr>spawn_ok := False\<rparr>) = []"
    by (simp_all add: fresh_server_def initial_world_def)
  show ?thesis
    using a f b g
      session_start_failure [OF a disjI1 [OF f], of init_payload]
      session_start_failure [OF b disjI2 [OF g], of init_payload]
    unfolding t u by blast
qed






lemma connect_fails_early:
  assumes absent: "session_id \<notin> dom (terminals w)"
    and res: "handle_terminal_connect session_id data w = (e, w')"
    and entry: "terminals w' session_id = Some t"
  obtains m s w1 p w2 where "os_openpty w = Inr ((m, s), w1)"
    "os_popen [''/bin/bash''] s s s w1 = Inr (p, w2)"
proof (cases "os_openpty w")
  case (Inl x)
  with absent res entry show ?thesis
    by (auto simp: handle_terminal_connect_def)
next
  case (Inr r)
  then obtain m s w1 where pty: "os_openpty w = Inr ((m, s), w1)" by (cases r) auto
  show ?thesis
  proof (cases "os_popen [''/bin/bash''] s s s w1")
    case (Inl x)
    with absent res entry pty show ?thesis
      by (auto simp: handle_terminal_connect_def os_openpty_InrD(4)[OF pty] logcall_def)
  next
    case (Inr r2)
    then show ?thesis using pty that by (cases r2) auto
  qed
qed

text \<open>
  Claim C4, as amended. Whenever \<^verbatim>\<open>handle_terminal_connect\<close> creates an entry, the
  shell is \<^verbatim>\<open>/bin/bash\<close> with standard input, output and error on the subordinate
  descriptor of the entry, started in a new session (\<^verbatim>\<open>os.setsid\<close>), and its
  environment is the environment of the server, unchanged: server.py sets no
  terminal type. The handler that the installer patches into server.js does:
  it spawns with the name and \<^verbatim>\<open>TERM\<close> set to xterm-256color.
\<close>

theorem shell_spawn_attributes:
  "(session_id \<notin> dom (terminals w) \<and> handle_terminal_connect session_id data w = (e, w') \<and>
      terminals w' session_id = Some t \<longrightarrow>
      (\<exists>pr. procs w' (process t) = Some pr \<and> p_argv pr = [''/bin/bash''] \<and>
         p_stdin pr = slave_fd t \<and> p_stdout pr = slave_fd t \<and> p_stderr pr = slave_fd t \<and>
         p_setsid pr \<and> p_env pr = environ w \<and> p_status pr = Running)) \<and>
   (\<exists>sp. ptyProcess (terminal_init data_cols data_rows process_env st) = Some sp \<and>
      spawn_name sp = ''xterm-256color'' \<and> spawn_env sp ''TERM'' = Some ''xterm-256color'')"
proof (intro conjI impI)
  assume h: "session_id \<notin> dom (terminals w) \<and> handle_terminal_connect session_id data w = (e, w') \<and>
      terminals w' session_id = Some t"
  then obtain m s w1 p w2 where pty: "os_openpty w = Inr ((m, s), w1)"
    and sh: "os_popen [''/bin/bash''] s s s w1 = Inr (p, w2)"
    using connect_fails_early by blast
  from h have "(e, w') = handle_terminal_connect session_id data w" by simp
  also note connect_created[OF _ pty sh]
  finally have "(e, w') = (let w3 = w2\<lparr>terminals := (terminals w2)(session_id \<mapsto>
                  \<lparr>master_fd = m, slave_fd = s, process = p\<rparr>)\<rparr>
     in if ''cols'' \<in> dom data \<and> ''rows'' \<in> dom data then
          (case struct_pack_HHHH (the (data ''rows'')) (the (data ''cols'')) (JInt 0) (JInt 0) of
             None \<Rightarrow> (Some StructError, w3)
           | Some ws \<Rightarrow>
               (None, emit session_id (connected_notice (controller_serial w))
                  (start_background_task session_id
                     (logcall (SysIoctl m ws) (w3\<lparr>winsizes := (winsizes w3)(m \<mapsto> ws)\<rparr>)))))
        else (None, emit session_id (connected_notice (controller_serial w))
                      (start_background_task session_id w3)))"
    using h by simp
  then have "terminals w' session_id = Some \<lparr>master_fd = m, slave_fd = s, process = p\<rparr> \<and>
     procs w' = procs w2"
    by (auto simp: Let_def emit_def start_background_task_def logcall_def
        split: if_splits option.splits)
  with h show "\<exists>pr. procs w' (process t) = Some pr \<and> p_argv pr = [''/bin/bash''] \<and>
         p_stdin pr = slave_fd t \<and> p_stdout pr = slave_fd t \<and> p_stderr pr = slave_fd t \<and>
         p_setsid pr \<and> p_env pr = environ w \<and> p_status pr = Running"
    by (auto simp: created_fields[OF pty sh])
next
  show "\<exists>sp. ptyProcess (terminal_init data_cols data_rows process_env st) = Some sp \<and>
      spawn_name sp = ''xterm-256color'' \<and> spawn_env sp ''TERM'' = Some ''xterm-256color''"
    by (simp add: terminal_init_def Let_def)
qed

theorem shell_spawn_attributes_witness:
  "''A'' \<notin> dom (terminals fresh_server) \<and>
   handle_terminal_connect ''A'' init_payload fresh_server = (None, one_session) \<and>
   terminals one_session ''A'' = Some \<lparr>master_fd = 3, slave_fd = 4, process = 2\<rparr> \<and>
   (\<exists>pr. procs one_session 2 = Some pr \<and> p_argv pr = [''/bin/bash''] \<and>
      p_stdin pr = 4 \<and> p_stdout pr = 4 \<and> p_stderr pr = 4 \<and> p_setsid pr \<and>
      p_env pr = environ fresh_server \<and> p_status pr = Running)"
proof -
  have a: "''A'' \<notin> dom (terminals fresh_server)"
    by (simp add: fresh_server_def initial_world_def)
  have b: "handle_terminal_connect ''A'' init_payload fresh_server = (None, one_session)"
    by (simp add: one_session_eq fresh_server_def connect_fresh)
  have c: "terminals one_session ''A'' = Some \<lparr>master_fd = 3, slave_fd = 4, process = 2\<rparr>"
    by (simp add: one_session_eq)
  show ?thesis
    using a b c
      shell_spawn_attributes [of "''A''" fresh_server init_payload None one_session
        "\<lparr>master_fd = 3, slave_fd = 4, process = 2\<rparr>"]
    by simp
qed

text \<open>
  Claim C4 as stated fails: a server started without \<^verbatim>\<open>TERM\<close> in its environment
  creates the session of connection A successfully, and the shell has no
  \<^verbatim>\<open>TERM\<close> either.
\<close>

theorem shell_environment_counterexample:
  "fst (handle_terminal_connect ''A'' init_payload fresh_server) = None \<and>
   snd (handle_terminal_connect ''A'' init_payload fresh_server) = one_session \<and>
   terminals one_session ''A'' = Some \<lparr>master_fd = 3, slave_fd = 4, process = 2\<rparr> \<and>
   procs one_session 2 \<noteq> None \<and>
   p_env (the (procs one_session 2)) ''TERM'' = None"
  by (simp add: one_session_eq fresh_server_def connect_fresh)

subsection \<open>Resizing\<close>

lemma pack_H_in_range:
  "0 \<le> i \<Longrightarrow> i \<le> 65535 \<Longrightarrow> \<exists>x. pack_H (JInt i) = Some x \<and> uint x = i"
  by (simp add: pack_H_def uint_word_of_int take_bit_eq_mod)

lemma pack_H_zero: "pack_H (JInt 0) = Some 0"
  by (simp add: pack_H_def)

text \<open>
  Claim C7, as amended. For a live session of a well-formed world and a resize
  event carrying integers \<open>r\<close> rows and \<open>c\<close> columns, both from 0 to 65535,
  \<^verbatim>\<open>handle_terminal_resize\<close> issues one \<^verbatim>\<open>TIOCSWINSZ\<close> request on the master of
  the session with exactly \<open>(r, c, 0, 0)\<close>, and the window size the terminal
  then reports is \<open>(r, c)\<close>; nothing in this depends on output having been
  produced. With a dimension outside that range the handler raises struct.error
  and the world, the window size included, stays as it was.
\<close>

theorem resize_sets_window_size:
  assumes wf: "wf_world w"
    and live: "terminals w session_id = Some t"
    and rows: "data ''rows'' = Some (JInt r)"
    and cols: "data ''cols'' = Some (JInt c)"
  shows
    "(if 0 \<le> r \<and> r \<le> 65535 \<and> 0 \<le> c \<and> c \<le> 65535 then
        (\<exists>ws. fst (handle_terminal_resize session_id data w) = None \<and>
           winsizes (snd (handle_terminal_resize session_id data w)) (master_fd t) = Some ws \<and>
           uint (ws_row ws) = r \<and> uint (ws_col ws) = c \<and> ws_xpixel ws = 0 \<and> ws_ypixel ws = 0 \<and>
           ioctls_of (syscalls (snd (handle_terminal_resize session_id data w))) =
             ioctls_of (syscalls w) @ [(master_fd t, ws)])
      else handle_terminal_resize session_id data w = (Some StructError, w))"
proof (cases "0 \<le> r \<and> r \<le> 65535 \<and> 0 \<le> c \<and> c \<le> 65535")
  case True
  obtain x where x: "pack_H (JInt r) = Some x" "uint x = r"
    using pack_H_in_range[of r] True by auto
  obtain y where y: "pack_H (JInt c) = Some y" "uint y = c"
    using pack_H_in_range[of c] True by auto
  from wf live have m: "master_fd t \<in> open_fds w" "master_fd t \<in> dom (winsizes w)"
    by (auto simp: wf_world_def)
  show ?thesis
    using True m x y
    by (simp add: handle_terminal_resize_def live rows cols struct_pack_HHHH_def pack_H_zero
        os_ioctl_TIOCSWINSZ_def logcall_def ioctls_of_append)
next
  case False
  then have "pack_H (JInt r) = None \<or> pack_H (JInt c) = None"
    by (auto simp: pack_H_def)
  then show ?thesis
    using False
    by (auto simp: handle_terminal_resize_def live rows cols struct_pack_HHHH_def
        split: option.splits)
qed

theorem resize_sets_window_size_witness:
  "wf_world one_session \<and>
   terminals one_session ''A'' = Some \<lparr>master_fd = 3, slave_fd = 4, process = 2\<rparr> \<and>
   (\<exists>ws. fst (handle_terminal_resize ''A'' [''rows'' \<mapsto> JInt 50, ''cols'' \<mapsto> JInt 132] one_session) = None \<and>
      winsizes (snd (handle_terminal_resize ''A'' [''rows'' \<mapsto> JInt 50, ''cols'' \<mapsto> JInt 132] one_session)) 3 = Some ws \<and>
      uint (ws_row ws) = 50 \<and> uint (ws_col ws) = 132) \<and>
   handle_terminal_resize ''A'' [''rows'' \<mapsto> JInt 70000, ''cols'' \<mapsto> JInt 80] one_session =
     (Some StructError, one_session)"
proof -
  have t: "terminals one_session ''A'' = Some \<lparr>master_fd = 3, slave_fd = 4, process = 2\<rparr>"
    by (simp add: one_session_eq)
  show ?thesis
    using t wf_one_session
      resize_sets_window_size [OF wf_one_session t,
        of "[''rows'' \<mapsto> JInt 50, ''cols'' \<mapsto> JInt 132]" 50 132]
      resize_sets_window_size [OF wf_one_session t,
        of "[''rows'' \<mapsto> JInt 70000, ''cols'' \<mapsto> JInt 80]" 70000 80]
    by auto
qed

text \<open>
  Claim C7 as stated fails: a resize event with 70000 rows on the live session
  of connection A raises, and the terminal still reports 24 rows and 80 columns.
\<close>

theorem resize_out_of_range_counterexample:
  "terminals one_session ''A'' = Some \<lparr>master_fd = 3, slave_fd = 4, process = 2\<rparr> \<and>
   fst (handle_terminal_resize ''A'' [''rows'' \<mapsto> JInt 70000, ''cols'' \<mapsto> JInt 80] one_session) =
     Some StructError \<and>
   winsizes (snd (handle_terminal_resize ''A'' [''rows'' \<mapsto> JInt 70000, ''cols'' \<mapsto> JInt 80] one_session)) 3 =
     Some \<lparr>ws_row = 24, ws_col = 80, ws_xpixel = 0, ws_ypixel = 0\<rparr>"
  by (simp add: one_session_eq handle_terminal_resize_def struct_pack_HHHH_def pack_H_def)

subsection \<open>The relay and the end of a session\<close>


lemma relay_step_Finished: "relay_pc r = Finished \<Longrightarrow> relay_step r w = (r, w)"
  by (simp add: relay_step_def)

lemma relay_steps_Finished: "relay_pc r = Finished \<Longrightarrow> relay_steps n r w = (r, w)"
  by (induction n) (simp_all add: relay_step_Finished)





lemma relay_step_closed_descriptor:
  assumes "m \<notin> open_fds w" "relay_pc r = AtSelect m \<or> relay_pc r = AtRead m"
  shows "relay_step r w = (r\<lparr>relay_pc := Finished\<rparr>, w)"
  using assms by (auto simp: relay_step_def)



lemma relay_step_ends_unchanged:
  assumes "relay_step r w = (r', w')" "relay_pc r \<noteq> Finished" "relay_pc r' = Finished"
  shows "w' = w"
proof (cases "relay_pc r")
  case (AtRead m)
  show ?thesis
  proof (cases "m \<in> open_fds w \<and> pty_output w m \<noteq> []")
    case True
    obtain chunk w1 where rd: "os_read m w = (chunk, w1)" by (cases "os_read m w")
    with True AtRead assms(1) have "r' = r\<lparr>relay_pc := AtEmit m (utf8_decode_replace chunk)\<rparr>"
      by (auto simp: relay_step_def)
    with assms(3) show ?thesis by simp
  next
    case False
    with AtRead assms show ?thesis by (auto simp: relay_step_def split: if_splits)
  qed
qed (use assms in \<open>auto simp: relay_step_def split: option.splits if_splits\<close>)

lemma relay_step_emits:
  assumes "relay_step r w = (r', w')" "emitted w' \<noteq> emitted w"
  shows "\<exists>m output. relay_pc r = AtEmit m output \<and> emitted w' = emitted w @ [(relay_sid r, output)]"
proof (cases "relay_pc r")
  case (AtRead m)
  show ?thesis
  proof (cases "m \<in> open_fds w \<and> pty_output w m \<noteq> []")
    case True
    obtain chunk w1 where rd: "os_read m w = (chunk, w1)" by (cases "os_read m w")
    with True AtRead assms(1) have "w' = w1"
      by (auto simp: relay_step_def)
    with os_read_fields(6)[OF rd] assms(2) show ?thesis by simp
  next
    case False
    with AtRead assms show ?thesis by (auto simp: relay_step_def split: if_splits)
  qed
qed (use assms in \<open>auto simp: relay_step_def logcall_def emit_def split: option.splits if_splits\<close>)

lemma relay_step_reads:
  assumes "relay_pc r = AtRead m" "m \<in> open_fds w" "pty_output w m \<noteq> []"
  shows "relay_step r w =
    (r\<lparr>relay_pc := AtEmit m (utf8_decode_replace (fst (os_read m w)))\<rparr>, snd (os_read m w))"
  using assms by (simp add: relay_step_def case_prod_beta)









text \<open>The example worlds in which the task of A runs, evaluated.\<close>

lemma fds_after_close: "{4, 3, 0, Suc 0, 2} - {3} - {4} = {0, Suc 0, 2::nat}"
  by auto

lemma exited_session_eq:
  "exited_session =
     polling_session\<lparr>procs := [2 \<mapsto> \<lparr>p_argv = [''/bin/bash''], p_stdin = 4, p_stdout = 4,
         p_stderr = 4, p_setsid = True, p_env = Map.empty, p_status = Exited,
         p_may_signal = True, p_sigterm = False\<rparr>],
       syscalls := syscalls polling_session @ [SysSelect 3]\<rparr>"
  by (simp add: exited_session_def polling_session_eq one_session_eq relay_step_def
      select_ready_def closed_since_def logcall_def)

lemma chatty_session_eq:
  "chatty_session = polling_session\<lparr>pty_output := (\<lambda>_. [])(3 := [0x68, 0x69, 0xFF])\<rparr>"
  by (simp add: chatty_session_def polling_session_eq one_session_eq)

lemma reading_session_eq:
  "reading_session =
     chatty_session\<lparr>relays := [\<lparr>relay_sid = ''A'', relay_pc = AtRead 3\<rparr>],
       syscalls := syscalls chatty_session @ [SysSelect 3]\<rparr>"
  by (simp add: reading_session_def chatty_session_eq polling_session_eq one_session_eq
      relay_step_def select_ready_def closed_since_def logcall_def)

lemma emitting_session_eq:
  "emitting_session =
     reading_session\<lparr>pty_output := (\<lambda>_. []),
       relays := [\<lparr>relay_sid = ''A'', relay_pc = AtEmit 3 [104, 105, 0xFFFD]\<rparr>],
       syscalls := syscalls reading_session @ [SysRead 3 [0x68, 0x69, 0xFF]]\<rparr>"
  by (simp add: emitting_session_def reading_session_eq chatty_session_eq polling_session_eq
      one_session_eq relay_step_def os_read_def Let_def logcall_def replacement_def fun_upd_idem)


text \<open>What a disconnect of A does to a world in which only A has a session.\<close>

lemma closed_under_read_eq:
  "closed_under_read =
     reading_session\<lparr>terminals := Map.empty, open_fds := {0, 1, 2},
       procs := [2 \<mapsto> \<lparr>p_argv = [''/bin/bash''], p_stdin = 4, p_stdout = 4,
         p_stderr = 4, p_setsid = True, p_env = Map.empty, p_status = Running,
         p_may_signal = True, p_sigterm = True\<rparr>],
       winsizes := Map.empty,
       syscalls := syscalls reading_session @ [SysKill 2, SysClose 3, SysClose 4]\<rparr>"
  by (simp add: closed_under_read_def reading_session_eq chatty_session_eq polling_session_eq
      one_session_eq handle_disconnect_def popen_terminate_def os_close_def logcall_def
      fds_after_close)

lemma closed_under_read_step:
  "step (RelayRun 0) closed_under_read =
     closed_under_read\<lparr>relays := [\<lparr>relay_sid = ''A'', relay_pc = Finished\<rparr>]\<rparr>"
  by (simp add: closed_under_read_eq reading_session_eq chatty_session_eq polling_session_eq
      one_session_eq relay_step_def)

lemma closed_under_emit_eq:
  "closed_under_emit =
     emitting_session\<lparr>terminals := Map.empty, open_fds := {0, 1, 2},
       procs := [2 \<mapsto> \<lparr>p_argv = [''/bin/bash''], p_stdin = 4, p_stdout = 4,
         p_stderr = 4, p_setsid = True, p_env = Map.empty, p_status = Running,
         p_may_signal = True, p_sigterm = True\<rparr>],
       winsizes := Map.empty,
       syscalls := syscalls emitting_session @ [SysKill 2, SysClose 3, SysClose 4]\<rparr>"
  by (simp add: closed_under_emit_def emitting_session_eq reading_session_eq chatty_session_eq
      polling_session_eq one_session_eq handle_disconnect_def popen_terminate_def os_close_def
      logcall_def fds_after_close)

lemma closed_under_emit_step:
  "step (RelayRun 0) closed_under_emit =
     closed_under_emit\<lparr>emitted := [(''A'', connected_notice None), (''A'', [104, 105, 0xFFFD])],
       relays := [\<lparr>relay_sid = ''A'', relay_pc = Polling 3\<rparr>]\<rparr>"
  by (simp add: closed_under_emit_eq emitting_session_eq reading_session_eq chatty_session_eq
      polling_session_eq one_session_eq relay_step_def emit_def)




lemma unsignalable_session_eq:
  "unsignalable_session =
     one_session\<lparr>procs := [2 \<mapsto> \<lparr>p_argv = [''/bin/bash''], p_stdin = 4, p_stdout = 4,
         p_stderr = 4, p_setsid = True, p_env = Map.empty, p_status = Running,
         p_may_signal = False, p_sigterm = False\<rparr>]\<rparr>"
  by (simp add: unsignalable_session_def one_session_eq)




lemma popen_terminate_running:
  assumes "procs w p = Some pr" "p_status pr = Running" "p_may_signal pr"
  shows "popen_terminate p w =
    Inr (logcall (SysKill p) (w\<lparr>procs := (procs w)(p \<mapsto> pr\<lparr>p_sigterm := True\<rparr>)\<rparr>))"
  using assms by (simp add: popen_terminate_def)

lemma popen_terminate_has_exited:
  assumes "procs w p = Some pr" "p_status pr = Exited"
  shows "popen_terminate p w = Inr w"
  using assms by (simp add: popen_terminate_def)

lemma popen_terminate_not_permitted:
  assumes "procs w p = Some pr" "p_status pr = Running" "\<not> p_may_signal pr"
  shows "popen_terminate p w = Inl PermissionError"
  using assms by (simp add: popen_terminate_def)

text \<open>
  Claim C2, as amended. The one path on which server.py closes a session is the
  disconnect event. For a live session of a well-formed world whose shell has
  exited or may be signalled by the server, \<^verbatim>\<open>handle_disconnect\<close> raises nothing,
  closes the master and the subordinate descriptor and deletes the entry, so
  that afterwards neither descriptor is open. To a shell that has not exited it
  sends SIGTERM before that and does not wait for it: the record of the process
  is as before but for the signal, and the shell is still running when the
  handler returns. When the server may not signal the running shell, the
  handler raises PermissionError and has released nothing. A statement of the
  relay task, a failed read included, changes neither the dictionary nor the
  open descriptors nor any process, and the exit of a shell changes neither the
  dictionary nor the open descriptors: after these the session is still in the
  dictionary with its descriptors open, until the client disconnects.
\<close>

theorem disconnect_releases_session:
  "(wf_world w \<and> terminals w session_id = Some t \<and> procs w (process t) = Some pr \<and>
      p_status pr = Running \<and> p_may_signal pr \<longrightarrow>
      (\<exists>w'. handle_disconnect session_id w = (None, w') \<and> terminals w' session_id = None \<and>
         master_fd t \<notin> open_fds w' \<and> slave_fd t \<notin> open_fds w' \<and>
         procs w' = (procs w)(process t \<mapsto> pr\<lparr>p_sigterm := True\<rparr>) \<and>
         map_option p_status (procs w' (process t)) = Some Running \<and>
         syscalls w' = syscalls w @
           [SysKill (process t), SysClose (master_fd t), SysClose (slave_fd t)])) \<and>
   (wf_world w \<and> terminals w session_id = Some t \<and> procs w (process t) = Some pr \<and>
      p_status pr = Exited \<longrightarrow>
      (\<exists>w'. handle_disconnect session_id w = (None, w') \<and> terminals w' session_id = None \<and>
         master_fd t \<notin> open_fds w' \<and> slave_fd t \<notin> open_fds w' \<and> procs w' = procs w \<and>
         syscalls w' = syscalls w @ [SysClose (master_fd t), SysClose (slave_fd t)])) \<and>
   (terminals w session_id = Some t \<and> procs w (process t) = Some pr \<and>
      p_status pr = Running \<and> \<not> p_may_signal pr \<longrightarrow>
      handle_disconnect session_id w = (Some PermissionError, w)) \<and>
   (relay_step r w = (r', w2) \<longrightarrow>
      terminals w2 = terminals w \<and> open_fds w2 = open_fds w \<and> procs w2 = procs w) \<and>
   terminals (step (ProcExit p) w) = terminals w \<and>
   open_fds (step (ProcExit p) w) = open_fds w"
proof (intro conjI impI)
  assume h: "wf_world w \<and> terminals w session_id = Some t \<and> procs w (process t) = Some pr \<and>
      p_status pr = Running \<and> p_may_signal pr"
  then have own: "master_fd t \<in> open_fds w" "slave_fd t \<in> open_fds w"
    "master_fd t \<noteq> slave_fd t"
    by (auto simp: wf_world_def)
  from h have live: "terminals w session_id = Some t" by simp
  let ?w1 = "logcall (SysKill (process t))
      (w\<lparr>procs := (procs w)(process t \<mapsto> pr\<lparr>p_sigterm := True\<rparr>)\<rparr>)"
  have k: "popen_terminate (process t) w = Inr ?w1"
    using h popen_terminate_running[of w "process t" pr] by simp
  from handle_disconnect_present[OF live k own]
  obtain w' where w': "handle_disconnect session_id w = (None, w')"
    "terminals w' = (terminals w)(session_id := None)"
    "open_fds w' = open_fds w - {master_fd t, slave_fd t}"
    "procs w' = procs ?w1"
    "syscalls w' = syscalls ?w1 @ [SysClose (master_fd t), SysClose (slave_fd t)]"
    by metis
  show "\<exists>w'. handle_disconnect session_id w = (None, w') \<and> terminals w' session_id = None \<and>
         master_fd t \<notin> open_fds w' \<and> slave_fd t \<notin> open_fds w' \<and>
         procs w' = (procs w)(process t \<mapsto> pr\<lparr>p_sigterm := True\<rparr>) \<and>
         map_option p_status (procs w' (process t)) = Some Running \<and>
         syscalls w' = syscalls w @
           [SysKill (process t), SysClose (master_fd t), SysClose (slave_fd t)]"
    using w' h by (intro exI[of _ w']) (simp add: logcall_def)
next
  assume h: "wf_world w \<and> terminals w session_id = Some t \<and> procs w (process t) = Some pr \<and>
      p_status pr = Exited"
  then have own: "master_fd t \<in> open_fds w" "slave_fd t \<in> open_fds w"
    "master_fd t \<noteq> slave_fd t"
    by (auto simp: wf_world_def)
  from h have live: "terminals w session_id = Some t" by simp
  have k: "popen_terminate (process t) w = Inr w"
    using h popen_terminate_has_exited[of w "process t" pr] by simp
  from handle_disconnect_present[OF live k own]
  obtain w' where w': "handle_disconnect session_id w = (None, w')"
    "terminals w' = (terminals w)(session_id := None)"
    "open_fds w' = open_fds w - {master_fd t, slave_fd t}"
    "procs w' = procs w"
    "syscalls w' = syscalls w @ [SysClose (master_fd t), SysClose (slave_fd t)]"
    by metis
  show "\<exists>w'. handle_disconnect session_id w = (None, w') \<and> terminals w' session_id = None \<and>
         master_fd t \<notin> open_fds w' \<and> slave_fd t \<notin> open_fds w' \<and> procs w' = procs w \<and>
         syscalls w' = syscalls w @ [SysClose (master_fd t), SysClose (slave_fd t)]"
    using w' by (intro exI[of _ w']) simp
next
  assume h: "terminals w session_id = Some t \<and> procs w (process t) = Some pr \<and>
      p_status pr = Running \<and> \<not> p_may_signal pr"
  then have "popen_terminate (process t) w = Inl PermissionError"
    using popen_terminate_not_permitted[of w "process t" pr] by simp
  with h show "handle_disconnect session_id w = (Some PermissionError, w)"
    using handle_disconnect_refused[of w session_id t PermissionError] by simp
next
  assume "relay_step r w = (r', w2)"
  note f = relay_step_fields[OF this]
  show "terminals w2 = terminals w" "open_fds w2 = open_fds w" "procs w2 = procs w"
    by (rule f)+
qed (simp_all split: option.splits)

theorem disconnect_releases_session_witness:
  "wf_world one_session \<and>
   terminals one_session ''A'' = Some \<lparr>master_fd = 3, slave_fd = 4, process = 2\<rparr> \<and>
   map_option p_status (procs one_session 2) = Some Running \<and>
   map_option p_may_signal (procs one_session 2) = Some True \<and>
   (\<exists>w'. handle_disconnect ''A'' one_session = (None, w') \<and> terminals w' ''A'' = None \<and>
      3 \<notin> open_fds w' \<and> 4 \<notin> open_fds w' \<and>
      map_option p_status (procs w' 2) = Some Running \<and>
      map_option p_sigterm (procs w' 2) = Some True \<and>
      syscalls w' = syscalls one_session @ [SysKill 2, SysClose 3, SysClose 4]) \<and>
   wf_world exited_session \<and>
   terminals exited_session ''A'' = Some \<lparr>master_fd = 3, slave_fd = 4, process = 2\<rparr> \<and>
   map_option p_status (procs exited_session 2) = Some Exited \<and>
   (\<exists>w'. handle_disconnect ''A'' exited_session = (None, w') \<and> terminals w' ''A'' = None \<and>
      3 \<notin> open_fds w' \<and> 4 \<notin> open_fds w' \<and> procs w' = procs exited_session \<and>
      syscalls w' = syscalls exited_session @ [SysClose 3, SysClose 4]) \<and>
   terminals unsignalable_session ''A'' = Some \<lparr>master_fd = 3, slave_fd = 4, process = 2\<rparr> \<and>
   map_option p_may_signal (procs unsignalable_session 2) = Some False \<and>
   handle_disconnect ''A'' unsignalable_session = (Some PermissionError, unsignalable_session) \<and>
   relay_step \<lparr>relay_sid = ''A'', relay_pc = AtRead 3\<rparr> closed_under_read =
     (\<lparr>relay_sid = ''A'', relay_pc = Finished\<rparr>, closed_under_read) \<and>
   open_fds (snd (relay_step \<lparr>relay_sid = ''A'', relay_pc = AtRead 3\<rparr> closed_under_read)) =
     open_fds closed_under_read"
proof -
  let ?t = "\<lparr>master_fd = 3, slave_fd = 4, process = 2\<rparr>"
  let ?pr = "\<lparr>p_argv = [''/bin/bash''], p_stdin = 4, p_stdout = 4,
         p_stderr = 4, p_setsid = True, p_env = Map.empty, p_status = Running,
         p_may_signal = True, p_sigterm = False\<rparr>"
  have a: "terminals one_session ''A'' = Some ?t" "procs one_session (process ?t) = Some ?pr"
    "procs one_session 2 = Some ?pr"
    by (simp_all add: one_session_eq)
  have b: "terminals exited_session ''A'' = Some ?t"
    "procs exited_session (process ?t) = Some (?pr\<lparr>p_status := Exited\<rparr>)"
    "procs exited_session 2 = Some (?pr\<lparr>p_status := Exited\<rparr>)"
    by (simp_all add: exited_session_eq polling_session_eq one_session_eq)
  have c: "terminals unsignalable_session ''A'' = Some ?t"
    "procs unsignalable_session (process ?t) = Some (?pr\<lparr>p_may_signal := False\<rparr>)"
    "procs unsignalable_session 2 = Some (?pr\<lparr>p_may_signal := False\<rparr>)"
    by (simp_all add: unsignalable_session_eq one_session_eq)
  have wfe: "wf_world exited_session"
    unfolding exited_session_def by (intro wf_run wf_polling_session)
  have d: "relay_step \<lparr>relay_sid = ''A'', relay_pc = AtRead 3\<rparr> closed_under_read =
     (\<lparr>relay_sid = ''A'', relay_pc = Finished\<rparr>, closed_under_read)"
    by (simp add: relay_step_def closed_under_read_eq)
  have one: "\<exists>w'. handle_disconnect ''A'' one_session = (None, w') \<and> terminals w' ''A'' = None \<and>
      3 \<notin> open_fds w' \<and> 4 \<notin> open_fds w' \<and>
      map_option p_status (procs w' 2) = Some Running \<and>
      map_option p_sigterm (procs w' 2) = Some True \<and>
      syscalls w' = syscalls one_session @ [SysKill 2, SysClose 3, SysClose 4]"
    using a wf_one_session
      disconnect_releases_session [of one_session "''A''" ?t ?pr
        "\<lparr>relay_sid = ''A'', relay_pc = AtRead 3\<rparr>"
        "\<lparr>relay_sid = ''A'', relay_pc = Finished\<rparr>" closed_under_read 2]
    by (auto simp del: step.simps)
  have two: "\<exists>w'. handle_disconnect ''A'' exited_session = (None, w') \<and> terminals w' ''A'' = None \<and>
      3 \<notin> open_fds w' \<and> 4 \<notin> open_fds w' \<and> procs w' = procs exited_session \<and>
      syscalls w' = syscalls exited_session @ [SysClose 3, SysClose 4]"
    using b wfe
      disconnect_releases_session [of exited_session "''A''" ?t "?pr\<lparr>p_status := Exited\<rparr>"
        "\<lparr>relay_sid = ''A'', relay_pc = AtRead 3\<rparr>"
        "\<lparr>relay_sid = ''A'', relay_pc = Finished\<rparr>" closed_under_read 2]
    by (auto simp del: step.simps)
  have three: "handle_disconnect ''A'' unsignalable_session =
      (Some PermissionError, unsignalable_session)"
    using c
      disconnect_releases_session [of unsignalable_session "''A''" ?t
        "?pr\<lparr>p_may_signal := False\<rparr>"
        "\<lparr>relay_sid = ''A'', relay_pc = AtRead 3\<rparr>"
        "\<lparr>relay_sid = ''A'', relay_pc = Finished\<rparr>" closed_under_read 2]
    by (simp del: step.simps)
  have four: "open_fds (snd (relay_step \<lparr>relay_sid = ''A'', relay_pc = AtRead 3\<rparr> closed_under_read)) =
     open_fds closed_under_read"
    using d
      disconnect_releases_session [of closed_under_read "''A''" ?t ?pr
        "\<lparr>relay_sid = ''A'', relay_pc = AtRead 3\<rparr>"
        "\<lparr>relay_sid = ''A'', relay_pc = Finished\<rparr>" closed_under_read 2]
    by (simp del: step.simps)
  show ?thesis
    using a(1,3) b(1,3) c(1,3) d one two three four wf_one_session wfe
    by simp
qed

text \<open>
  Claim C2 as stated fails. The shell of A exits by itself and the task of A
  makes another pass of its loop: the entry of A is still in the dictionary
  and both descriptors are still open, and further passes change nothing of
  that. And after the disconnect of a session whose shell has not exited,
  the descriptors are closed and the entry is gone, but the shell, sent SIGTERM
  and not waited for, is still running.
\<close>

theorem shell_exit_leaves_session_open_counterexample:
  "map_option p_status (procs exited_session 2) = Some Exited \<and>
   relays exited_session = [\<lparr>relay_sid = ''A'', relay_pc = Polling 3\<rparr>] \<and>
   terminals exited_session ''A'' = Some \<lparr>master_fd = 3, slave_fd = 4, process = 2\<rparr> \<and>
   3 \<in> open_fds exited_session \<and> 4 \<in> open_fds exited_session \<and>
   fst (read_terminal_output 3 \<lparr>relay_sid = ''A'', relay_pc = Polling 3\<rparr> exited_session) =
     \<lparr>relay_sid = ''A'', relay_pc = Polling 3\<rparr> \<and>
   terminals (snd (read_terminal_output 3 \<lparr>relay_sid = ''A'', relay_pc = Polling 3\<rparr>
     exited_session)) ''A'' = Some \<lparr>master_fd = 3, slave_fd = 4, process = 2\<rparr> \<and>
   open_fds (snd (read_terminal_output 3 \<lparr>relay_sid = ''A'', relay_pc = Polling 3\<rparr>
     exited_session)) = open_fds exited_session \<and>
   map_option p_status (procs one_session 2) = Some Running \<and>
   fst (handle_disconnect ''A'' one_session) = None \<and>
   terminals (step (Disconnect ''A'') one_session) ''A'' = None \<and>
   3 \<notin> open_fds (step (Disconnect ''A'') one_session) \<and>
   4 \<notin> open_fds (step (Disconnect ''A'') one_session) \<and>
   map_option p_status (procs (step (Disconnect ''A'') one_session) 2) = Some Running \<and>
   map_option p_sigterm (procs (step (Disconnect ''A'') one_session) 2) = Some True"
  by (simp add: exited_session_eq polling_session_eq one_session_eq eval_nat_numeral
      read_terminal_output_step_def relay_step_def select_ready_def closed_since_def
      at_loop_head_def logcall_def
      handle_disconnect_def popen_terminate_def os_close_def)

lemma process_completed_text:
  "process_completed =
     [13, 10, 91, 80, 114, 111, 99, 101, 115, 115, 32, 99, 111, 109, 112, 108, 101, 116, 101,
      100, 93, 13, 10]"
  by (simp add: process_completed_def ascii_def)

text \<open>
  Claim C3, as amended. The relay of server.py ends on the test of the
  dictionary, or when \<^verbatim>\<open>select\<close> or \<^verbatim>\<open>os.read\<close> raises on a descriptor that is not
  open; whichever statement ends it leaves the world as it was, so it emits
  no notice. The only events the task emits are the texts it decoded from the
  chunks it read, each emitted by the statement after the read without
  another look at the dictionary, so that the last of them can follow the
  removal of the session. A ``Process completed'' notice exists only in the
  handler patched into server.js, whose exit callback emits that one text,
  between two line breaks.
\<close>

theorem relay_exit_is_silent:
  "(relay_step r w = (r', w') \<and> relay_pc r \<noteq> Finished \<and> relay_pc r' = Finished \<longrightarrow> w' = w) \<and>
   (m \<notin> open_fds w \<and> (relay_pc r = AtSelect m \<or> relay_pc r = AtRead m) \<longrightarrow>
      relay_step r w = (r\<lparr>relay_pc := Finished\<rparr>, w)) \<and>
   (relay_step r w = (r', w') \<and> emitted w' \<noteq> emitted w \<longrightarrow>
      (\<exists>f x. relay_pc r = AtEmit f x \<and> emitted w' = emitted w @ [(relay_sid r, x)])) \<and>
   (relay_pc r = AtRead m \<and> m \<in> open_fds w \<and> pty_output w m \<noteq> [] \<longrightarrow>
      relay_step r w =
        (r\<lparr>relay_pc := AtEmit m (utf8_decode_replace (fst (os_read m w)))\<rparr>,
         snd (os_read m w))) \<and>
   (relay_pc r = AtEmit m str \<longrightarrow>
      relay_step r w = (r\<lparr>relay_pc := Polling m\<rparr>, emit (relay_sid r) str w)) \<and>
   socket_emitted (onExit st) =
     socket_emitted st @
       [ [13, 10, 91, 80, 114, 111, 99, 101, 115, 115, 32, 99, 111, 109, 112, 108, 101, 116,
          101, 100, 93, 13, 10] ] \<and>
   ptyProcess (onExit st) = ptyProcess st \<and> spawned (onExit st) = spawned st"
proof (intro conjI impI)
  assume "relay_step r w = (r', w') \<and> relay_pc r \<noteq> Finished \<and> relay_pc r' = Finished"
  then show "w' = w"
    using relay_step_ends_unchanged[of r w r' w'] by simp
next
  assume "m \<notin> open_fds w \<and> (relay_pc r = AtSelect m \<or> relay_pc r = AtRead m)"
  then show "relay_step r w = (r\<lparr>relay_pc := Finished\<rparr>, w)"
    using relay_step_closed_descriptor[of m w r] by simp
next
  assume "relay_step r w = (r', w') \<and> emitted w' \<noteq> emitted w"
  then show "\<exists>f x. relay_pc r = AtEmit f x \<and> emitted w' = emitted w @ [(relay_sid r, x)]"
    using relay_step_emits[of r w r' w'] by simp
next
  assume "relay_pc r = AtRead m \<and> m \<in> open_fds w \<and> pty_output w m \<noteq> []"
  then show "relay_step r w =
        (r\<lparr>relay_pc := AtEmit m (utf8_decode_replace (fst (os_read m w)))\<rparr>,
         snd (os_read m w))"
    using relay_step_reads[of r m w] by simp
next
  assume "relay_pc r = AtEmit m str"
  then show "relay_step r w = (r\<lparr>relay_pc := Polling m\<rparr>, emit (relay_sid r) str w)"
    by (simp add: relay_step_def)
qed (simp_all add: onExit_def process_completed_text)

theorem relay_exit_is_silent_witness:
  "3 \<notin> open_fds closed_under_read \<and>
   relay_step \<lparr>relay_sid = ''A'', relay_pc = AtRead 3\<rparr> closed_under_read =
     (\<lparr>relay_sid = ''A'', relay_pc = Finished\<rparr>, closed_under_read) \<and>
   3 \<in> open_fds reading_session \<and> pty_output reading_session 3 = [0x68, 0x69, 0xFF] \<and>
   relay_step \<lparr>relay_sid = ''A'', relay_pc = AtRead 3\<rparr> reading_session =
     (\<lparr>relay_sid = ''A'',
        relay_pc = AtEmit 3 (utf8_decode_replace (fst (os_read 3 reading_session)))\<rparr>,
      snd (os_read 3 reading_session)) \<and>
   relay_step \<lparr>relay_sid = ''A'', relay_pc = AtEmit 3 [104, 105, 0xFFFD]\<rparr> closed_under_emit =
     (\<lparr>relay_sid = ''A'', relay_pc = Polling 3\<rparr>, emit ''A'' [104, 105, 0xFFFD] closed_under_emit) \<and>
   emitted (emit ''A'' [104, 105, 0xFFFD] closed_under_emit) \<noteq> emitted closed_under_emit \<and>
   (\<exists>f x. AtEmit 3 [104, 105, 0xFFFD] = AtEmit f x \<and>
      emitted (emit ''A'' [104, 105, 0xFFFD] closed_under_emit) =
        emitted closed_under_emit @ [(''A'', x)])"
proof -
  have a: "3 \<notin> open_fds closed_under_read"
    by (simp add: closed_under_read_eq)
  have b: "3 \<in> open_fds reading_session" "pty_output reading_session 3 = [0x68, 0x69, 0xFF]"
    by (simp_all add: reading_session_eq chatty_session_eq polling_session_eq one_session_eq)
  have c: "emitted (emit ''A'' [104, 105, 0xFFFD] closed_under_emit) \<noteq> emitted closed_under_emit"
    by (simp add: emit_def)
  have one: "relay_step \<lparr>relay_sid = ''A'', relay_pc = AtRead 3\<rparr> closed_under_read =
     (\<lparr>relay_sid = ''A'', relay_pc = Finished\<rparr>, closed_under_read)"
    using a
      relay_exit_is_silent [of "\<lparr>relay_sid = ''A'', relay_pc = AtRead 3\<rparr>" closed_under_read
        "\<lparr>relay_sid = ''A'', relay_pc = Finished\<rparr>" closed_under_read 3 "[]"]
    by simp
  have two: "relay_step \<lparr>relay_sid = ''A'', relay_pc = AtRead 3\<rparr> reading_session =
     (\<lparr>relay_sid = ''A'',
        relay_pc = AtEmit 3 (utf8_decode_replace (fst (os_read 3 reading_session)))\<rparr>,
      snd (os_read 3 reading_session))"
    using b
      relay_exit_is_silent [of "\<lparr>relay_sid = ''A'', relay_pc = AtRead 3\<rparr>" reading_session
        "\<lparr>relay_sid = ''A'', relay_pc = Finished\<rparr>" reading_session 3 "[]"]
    by simp
  have three: "relay_step \<lparr>relay_sid = ''A'', relay_pc = AtEmit 3 [104, 105, 0xFFFD]\<rparr> closed_under_emit =
     (\<lparr>relay_sid = ''A'', relay_pc = Polling 3\<rparr>, emit ''A'' [104, 105, 0xFFFD] closed_under_emit)"
    using
      relay_exit_is_silent [of "\<lparr>relay_sid = ''A'', relay_pc = AtEmit 3 [104, 105, 0xFFFD]\<rparr>"
        closed_under_emit "\<lparr>relay_sid = ''A'', relay_pc = Polling 3\<rparr>"
        "emit ''A'' [104, 105, 0xFFFD] closed_under_emit" 3 "[104, 105, 0xFFFD]"]
    by simp
  have four: "\<exists>f x. AtEmit 3 [104, 105, 0xFFFD] = AtEmit f x \<and>
      emitted (emit ''A'' [104, 105, 0xFFFD] closed_under_emit) =
        emitted closed_under_emit @ [(''A'', x)]"
    using c three
      relay_exit_is_silent [of "\<lparr>relay_sid = ''A'', relay_pc = AtEmit 3 [104, 105, 0xFFFD]\<rparr>"
        closed_under_emit "\<lparr>relay_sid = ''A'', relay_pc = Polling 3\<rparr>"
        "emit ''A'' [104, 105, 0xFFFD] closed_under_emit" 3 "[104, 105, 0xFFFD]"]
    by simp
  show ?thesis
    using a b c one two three four by simp
qed

text \<open>
  Claim C3 as stated fails. The task of A is about to read when the client of
  A disconnects: the read raises on the closed descriptor, the task ends, and
  the only event ever emitted to A is the connected notice of the init event.
  And when the task of A has read a chunk and the client of A disconnects
  before the text is emitted, the task emits it to A after the entry of A has
  been removed.
\<close>

theorem no_completion_notice_counterexample:
  "relays closed_under_read = [\<lparr>relay_sid = ''A'', relay_pc = AtRead 3\<rparr>] \<and>
   3 \<notin> open_fds closed_under_read \<and>
   emitted closed_under_read = [(''A'', connected_notice None)] \<and>
   relays (step (RelayRun 0) closed_under_read) = [\<lparr>relay_sid = ''A'', relay_pc = Finished\<rparr>] \<and>
   emitted (step (RelayRun 0) closed_under_read) = [(''A'', connected_notice None)] \<and>
   terminals emitting_session ''A'' = Some \<lparr>master_fd = 3, slave_fd = 4, process = 2\<rparr> \<and>
   relays emitting_session = [\<lparr>relay_sid = ''A'', relay_pc = AtEmit 3 [104, 105, 0xFFFD]\<rparr>] \<and>
   terminals closed_under_emit ''A'' = None \<and>
   emitted closed_under_emit = [(''A'', connected_notice None)] \<and>
   emitted (step (RelayRun 0) closed_under_emit) =
     [(''A'', connected_notice None), (''A'', [104, 105, 0xFFFD])]"
  unfolding closed_under_read_step closed_under_emit_step
  by (simp add: closed_under_read_eq closed_under_emit_eq emitting_session_eq reading_session_eq
      chatty_session_eq polling_session_eq one_session_eq)

subsection \<open>The codecs: valid UTF-8 decodes to the text it encodes\<close>















subsection \<open>What the relay forwards\<close>















end
